theory Spec2Isabelle
  imports Main
begin

section \<open>The table-name validator\<close>

text \<open>
  Every endpoint variant that takes the table name from the request guards it with
  \<^verbatim>\<open>
  function isValidTableName(tableName) {
    return /^[a-zA-Z_][a-zA-Z0-9_]*$/.test(tableName) && tableName.length <= 50;
  }
  \<close>
  The pattern has no flags, so \<open>^\<close> and \<open>$\<close> are the two ends of the input and
  \<open>test\<close> succeeds exactly when the whole string is matched by a character class followed
  by a starred character class. The regular expression is embedded as a term of a small
  pattern language and run by a matcher that consumes the input one character at a time.

  A string of the runtime is modelled by the list of the bytes of its UTF-8 encoding. A
  character outside ASCII is encoded by bytes above 127, which belong to no class of the
  pattern, as the character itself belongs to none. The \<open>length\<close> of a string counts
  its UTF-16 code units: one for each byte that starts a character, and one more when the
  character takes four bytes.
\<close>

definition utf16_units :: "char \<Rightarrow> nat" where
  "utf16_units c =
     (if (of_char c :: nat) < 0x80 then 1
      else if (of_char c :: nat) < 0xC0 then 0
      else if (of_char c :: nat) < 0xF0 then 1
      else 2)"

definition js_length :: "string \<Rightarrow> nat" where
  "js_length s = sum_list (map utf16_units s)"

type_synonym char_class = "(char \<times> char) list"

definition in_class :: "char_class \<Rightarrow> char \<Rightarrow> bool" where
  "in_class rs c =
     list_ex (\<lambda>(lo, hi). (of_char lo :: nat) \<le> of_char c \<and> (of_char c :: nat) \<le> of_char hi) rs"

datatype pattern =
    Nothing
  | Empty
  | Class char_class
  | Either pattern pattern
  | Then pattern pattern
  | Many pattern

fun accepts_empty :: "pattern \<Rightarrow> bool" where
  "accepts_empty Nothing = False"
| "accepts_empty Empty = True"
| "accepts_empty (Class rs) = False"
| "accepts_empty (Either p q) = (accepts_empty p \<or> accepts_empty q)"
| "accepts_empty (Then p q) = (accepts_empty p \<and> accepts_empty q)"
| "accepts_empty (Many p) = True"

fun after :: "char \<Rightarrow> pattern \<Rightarrow> pattern" where
  "after c Nothing = Nothing"
| "after c Empty = Nothing"
| "after c (Class rs) = (if in_class rs c then Empty else Nothing)"
| "after c (Either p q) = Either (after c p) (after c q)"
| "after c (Then p q) =
     (if accepts_empty p then Either (Then (after c p) q) (after c q)
      else Then (after c p) q)"
| "after c (Many p) = Then (after c p) (Many p)"

fun anchored_test :: "pattern \<Rightarrow> string \<Rightarrow> bool" where
  "anchored_test p [] = accepts_empty p"
| "anchored_test p (c # cs) = anchored_test (after c p) cs"

text \<open>The two classes of the pattern: \<open>[a-zA-Z_]\<close> and \<open>[a-zA-Z0-9_]\<close>.\<close>

definition first_class :: char_class where
  "first_class = [(CHR ''a'', CHR ''z''), (CHR ''A'', CHR ''Z''), (CHR ''_'', CHR ''_'')]"

definition rest_class :: char_class where
  "rest_class =
     [(CHR ''a'', CHR ''z''), (CHR ''A'', CHR ''Z''), (CHR ''0'', CHR ''9''), (CHR ''_'', CHR ''_'')]"

definition table_name_pattern :: pattern where
  "table_name_pattern = Then (Class first_class) (Many (Class rest_class))"

definition isValidTableName :: "string \<Rightarrow> bool" where
  "isValidTableName tableName =
     (anchored_test table_name_pattern tableName \<and> js_length tableName \<le> 50)"





section \<open>Values of the runtime\<close>

text \<open>
  The handlers receive the request body as parsed JSON. Numbers are IEEE doubles in the
  runtime; the handlers only pass them on or test them against zero, so the type of
  numbers is a parameter \<open>'n\<close> of the model, of which only the numbers 0 and 1
  are named. An object is the list of its own entries in insertion order (a parsed object
  has no two entries with one key); a value that may be \<open>undefined\<close> is an
  \<open>option\<close>.
\<close>

datatype 'n json =
    JNull
  | JBool bool
  | JNum 'n
  | JStr string
  | JArr "'n json list"
  | JObj "(string \<times> 'n json) list"

text \<open>
  Errors are values. \<open>Error m\<close> is \<open>new Error(m)\<close>; \<open>ErrorFrom p e\<close> is
  \<open>new Error(p + e.message)\<close>, the wrapping all catch blocks of the handlers use;
  \<open>TypeError\<close> and \<open>SyntaxError\<close> are raised by the runtime and \<open>D1Error\<close> by the
  datastore binding, whose message texts are not the repository's. The same values stand
  for the message shown under \<open>error\<close> in a response body.
\<close>

datatype d1_error =
    NoSuchTable string
  | NoSuchColumn string
  | SqlSyntax
  | ReservedName string
  | D1_TYPE_ERROR

datatype js_error =
    Error string
  | ErrorFrom string js_error
  | TypeError
  | SyntaxError
  | D1Error d1_error

definition quoted :: "string \<Rightarrow> string" where
  "quoted s = [CHR 0x27] @ s @ [CHR 0x27]"

text \<open>\<open>i.toString()\<close> for a non-negative integer, and \<open>s.padStart(n, fill)\<close>.\<close>

definition digit_char :: "nat \<Rightarrow> char" where
  "digit_char d = ''0123456789'' ! d"

function toString :: "nat \<Rightarrow> string" where
  "toString i = (if i < 10 then [digit_char i] else toString (i div 10) @ [digit_char (i mod 10)])"
  by pat_completeness auto
termination
  by (relation "measure (\<lambda>i. i)") auto

declare toString.simps [simp del]

definition padStart :: "string \<Rightarrow> nat \<Rightarrow> string \<Rightarrow> string" where
  "padStart s targetLength padString =
     (if targetLength \<le> length s \<or> padString = [] then s
      else take (targetLength - length s)
             (concat (replicate (targetLength - length s) padString)) @ s)"

text \<open>\<open>s.includes(t)\<close>: some suffix of \<open>s\<close> starts with \<open>t\<close>.\<close>

fun js_includes :: "string \<Rightarrow> string \<Rightarrow> bool" where
  "js_includes [] t = (t = [])"
| "js_includes (c # cs) t = (take (length t) (c # cs) = t \<or> js_includes cs t)"

text \<open>
  \<open>data.hasOwnProperty(k)\<close>. The method is looked up on the value itself: on
  \<open>null\<close> the lookup raises a TypeError, and on an object that has an own entry named
  \<open>hasOwnProperty\<close> the lookup finds that entry, a JSON value, and calling it raises a
  TypeError. The own properties of an array or a string are its indices and
  \<open>length\<close>; numbers and booleans have none.
\<close>

definition hasOwnProperty :: "'n json \<Rightarrow> string \<Rightarrow> js_error + bool" where
  "hasOwnProperty data k =
     (case data of
        JNull \<Rightarrow> Inl TypeError
      | JBool b \<Rightarrow> Inr False
      | JNum n \<Rightarrow> Inr False
      | JStr s \<Rightarrow> Inr (k \<in> set (''length'' # map toString [0..<js_length s]))
      | JArr xs \<Rightarrow> Inr (k \<in> set (''length'' # map toString [0..<length xs]))
      | JObj kvs \<Rightarrow>
          if ''hasOwnProperty'' \<in> set (map fst kvs) then Inl TypeError
          else Inr (k \<in> set (map fst kvs)))"

text \<open>
  \<open>data[k]\<close> for the keys the handlers read (\<open>x_01\<close> to \<open>x_20\<close>, \<open>name\<close>,
  \<open>email\<close>, \<open>message\<close>): only an object can have an entry under one of them, every
  other value gives \<open>undefined\<close>. The handlers never read a property of \<open>null\<close>:
  the call of \<open>hasOwnProperty\<close> and the destructuring raise before.
\<close>

fun property :: "'n json \<Rightarrow> string \<Rightarrow> 'n json option" where
  "property (JObj kvs) k = map_of kvs k"
| "property v k = None"

section \<open>The row codec\<close>

text \<open>
  The twenty text columns, as the \<open>CREATE TABLE\<close> statement of
  \<open>createTableIfNotExists\<close> lists them after the key \<open>id_x\<close>.
\<close>

definition text_columns :: "string list" where
  "text_columns =
     [''x_01'', ''x_02'', ''x_03'', ''x_04'', ''x_05'', ''x_06'', ''x_07'', ''x_08'', ''x_09'', ''x_10'',
      ''x_11'', ''x_12'', ''x_13'', ''x_14'', ''x_15'', ''x_16'', ''x_17'', ''x_18'', ''x_19'', ''x_20'']"

text \<open>
  Create and update run the same loop over the twenty column names
  (\<^verbatim>\<open>src/unnamed/part_000\<close> lines 158 to 173, \<^verbatim>\<open>[id].js\<close> lines 213 to 225):
  \<^verbatim>\<open>
  for (let i = 1; i <= 20; i++) {
    const colNum = i.toString().padStart(2, '0');
    const colName = `x_${colNum}`;
    if (requestData.hasOwnProperty(colName)) {
      columns.push(colName);
      values.push(requestData[colName]);
      placeholders.push('?');
    }
  }
  \<close>
  The update loop pushes \<open>colName = ?\<close> where the create loop pushes the column and a
  placeholder; the model keeps the column names and the values.
\<close>

definition colName :: "nat \<Rightarrow> string" where
  "colName i = ''x_'' @ padStart (toString i) 2 ''0''"

function encode_from ::
  "nat \<Rightarrow> 'n json \<Rightarrow> string list \<Rightarrow> 'n json option list \<Rightarrow>
     js_error + (string list \<times> 'n json option list)" where
  "encode_from i requestData columns vals =
     (if i \<le> 20 then
        (case hasOwnProperty requestData (colName i) of
           Inl e \<Rightarrow> Inl e
         | Inr present \<Rightarrow>
             if present
             then encode_from (i + 1) requestData (columns @ [colName i])
                    (vals @ [property requestData (colName i)])
             else encode_from (i + 1) requestData columns vals)
      else Inr (columns, vals))"
  by pat_completeness auto
termination
  by (relation "measure (\<lambda>(i, requestData, columns, vals). 21 - i)") auto

declare encode_from.simps [simp del]

definition encode :: "'n json \<Rightarrow> js_error + (string list \<times> 'n json option list)" where
  "encode requestData = encode_from 1 requestData [] []"

text \<open>
  Two notions for stating what the loop does: \<open>own data k\<close>, the payload has the own
  property \<open>k\<close>, and \<open>callable data\<close>, the payload is a value on which the method
  \<open>hasOwnProperty\<close> can be called at all.
\<close>

definition own :: "'n json \<Rightarrow> string \<Rightarrow> bool" where
  "own data k = (hasOwnProperty data k = Inr True)"

definition callable :: "'n json \<Rightarrow> bool" where
  "callable data =
     (case data of
        JNull \<Rightarrow> False
      | JObj kvs \<Rightarrow> ''hasOwnProperty'' \<notin> set (map fst kvs)
      | _ \<Rightarrow> True)"

text \<open>The recognized fields a payload has, in the order of the columns.\<close>

definition recognized_fields :: "'n json \<Rightarrow> string list" where
  "recognized_fields data =
     (case data of
        JObj kvs \<Rightarrow> filter (\<lambda>c. c \<in> set (map fst kvs)) text_columns
      | _ \<Rightarrow> [])"


section \<open>The datastore\<close>

text \<open>
  The handlers reach the datastore through the binding they are passed:
  \<open>prepare(sql).bind(values)\<close> followed by \<open>first()\<close>, \<open>all()\<close> or
  \<open>run()\<close>. The binding and the SQL engine behind it are outside the repository. The
  model gives each statement the handlers issue its SQL meaning over an explicit state and
  threads the state through the handlers. Where the answer of the engine is decided by
  rules of its own that the sources do not show, the rule is a parameter of the
  datastore, collected in the record \<open>engine\<close>:
  \<^item> \<open>denied name\<close> is the error with which the engine answers every statement that
    has \<open>name\<close> in the place of a table (it is a word of the SQL grammar, or a name
    the engine gives no access to), and \<open>None\<close> when the engine reads it as the name
    of a table in each statement of the handlers. The handlers write the name into the
    statement text as it came with the request, without quotes;
  \<^item> \<open>reserved name\<close> is the error with which the engine refuses to create a
    table called \<open>name\<close> (a name it keeps for its own tables), \<open>None\<close> when it
    lets a table of that name be created;
  \<^item> \<open>coerce_id s = Some k\<close> when the text \<open>s\<close>, bound to the placeholder of
    \<open>WHERE id_x = ?\<close>, compares equal to the integer key \<open>k\<close>;
  \<^item> \<open>as_byte n = Some b\<close> when the binding takes the number \<open>n\<close> as a byte (it
    is at least 0 and less than 256) and stores it as \<open>b\<close>;
  \<^item> \<open>number_stored n\<close> is what a column declared \<open>TEXT\<close> stores for the
    bound number \<open>n\<close>: a rendering of the number as text.
\<close>

text \<open>
  A value of the datastore: \<open>NULL\<close>, an integer, a number as it was bound, a text or a
  blob (a list of bytes).
\<close>

datatype 'n sqlval = SNull | SInt int | SNum 'n | SText string | SBlob "nat list"

record 'n engine =
  denied :: "string \<Rightarrow> d1_error option"
  reserved :: "string \<Rightarrow> d1_error option"
  coerce_id :: "string \<Rightarrow> int option"
  as_byte :: "'n \<Rightarrow> nat option"
  number_stored :: "'n \<Rightarrow> 'n sqlval"

definition admits :: "'n engine \<Rightarrow> string \<Rightarrow> bool" where
  "admits E name = (denied E name = None \<and> reserved E name = None)"

text \<open>
  \<open>bind\<close> takes \<open>null\<close>, numbers, strings, booleans (bound as the number 1 or 0)
  and arrays all of whose elements are numbers it takes as bytes (bound as a blob); it
  refuses \<open>undefined\<close>, every other array and every object with \<open>D1_TYPE_ERROR\<close>.
\<close>

fun byte_value :: "'n engine \<Rightarrow> 'n json \<Rightarrow> nat option" where
  "byte_value E (JNum n) = as_byte E n"
| "byte_value E v = None"

fun bytes :: "'n engine \<Rightarrow> 'n json list \<Rightarrow> nat list option" where
  "bytes E [] = Some []"
| "bytes E (x # xs) =
     (case byte_value E x of
        None \<Rightarrow> None
      | Some b \<Rightarrow> (case bytes E xs of None \<Rightarrow> None | Some bs \<Rightarrow> Some (b # bs)))"

definition d1_bind :: "('n::zero_neq_one) engine \<Rightarrow> 'n json option \<Rightarrow> d1_error + 'n sqlval" where
  "d1_bind E v =
     (case v of
        None \<Rightarrow> Inl D1_TYPE_ERROR
      | Some JNull \<Rightarrow> Inr SNull
      | Some (JBool b) \<Rightarrow> Inr (SNum (if b then 1 else 0))
      | Some (JNum n) \<Rightarrow> Inr (SNum n)
      | Some (JStr s) \<Rightarrow> Inr (SText s)
      | Some (JArr xs) \<Rightarrow> (case bytes E xs of Some bs \<Rightarrow> Inr (SBlob bs) | None \<Rightarrow> Inl D1_TYPE_ERROR)
      | Some (JObj kvs) \<Rightarrow> Inl D1_TYPE_ERROR)"

fun bind_all :: "('n::zero_neq_one) engine \<Rightarrow> 'n json option list \<Rightarrow> d1_error + 'n sqlval list" where
  "bind_all E [] = Inr []"
| "bind_all E (v # vs) =
     (case d1_bind E v of
        Inl e \<Rightarrow> Inl e
      | Inr b \<Rightarrow> (case bind_all E vs of Inl e \<Rightarrow> Inl e | Inr bs \<Rightarrow> Inr (b # bs)))"

text \<open>
  What a column declared \<open>TEXT\<close> stores for a bound value: a number is stored as the
  engine renders it, everything else as it is.
\<close>

definition text_affinity :: "'n engine \<Rightarrow> 'n sqlval \<Rightarrow> 'n sqlval" where
  "text_affinity E v = (case v of SNum n \<Rightarrow> number_stored E n | _ \<Rightarrow> v)"

text \<open>
  The result of \<open>run()\<close> is an object with the members \<open>success\<close>, \<open>meta\<close> and
  \<open>results\<close>; the number of rows a statement changed and the key of an inserted row
  are the members \<open>changes\<close> and \<open>last_row_id\<close> of \<open>meta\<close> (its other members,
  such as the duration, are left out). \<open>js_member v k\<close> is \<open>v.k\<close> for the member
  names the handlers read; a member that an object does not have reads as
  \<open>undefined\<close>, and reading a member of \<open>undefined\<close> raises a TypeError.
\<close>

datatype js_value =
    JsNumber int
  | JsBool bool
  | JsArray "js_value list"
  | JsObject "(string \<times> js_value) list"

fun js_member :: "js_value \<Rightarrow> string \<Rightarrow> js_value option" where
  "js_member (JsObject kvs) k = map_of kvs k"
| "js_member v k = None"

definition member_of :: "js_value option \<Rightarrow> string \<Rightarrow> js_error + js_value option" where
  "member_of v k = (case v of None \<Rightarrow> Inl TypeError | Some w \<Rightarrow> Inr (js_member w k))"

definition d1_result :: "(string \<times> js_value) list \<Rightarrow> js_value" where
  "d1_result meta =
     JsObject [(''success'', JsBool True), (''meta'', JsObject meta), (''results'', JsArray [])]"

text \<open>
  A table made by \<open>createTableIfNotExists\<close> has the key \<open>id_x\<close> and the twenty text
  columns of the one \<open>CREATE TABLE\<close> statement in the sources: a row is its key and a
  value for each column, and the table is its rows (in storage order) together with the
  largest key handed out so far, the counter behind \<open>AUTOINCREMENT\<close>. The datastore
  can hold tables of another declaration: the table \<open>sqlite_sequence\<close>, which the
  engine adds when the first table with an \<open>AUTOINCREMENT\<close> key is created, and the
  table \<open>contacts\<close> of the fixed-schema endpoints, which use the same binding as one
  of the generic endpoints. Such a table has none of the columns \<open>id_x\<close>, \<open>x_01\<close>
  to \<open>x_20\<close>; the model records that it is there, and not what it holds.

  The engine finds a table by its name without regard to the case of the letters A to Z,
  and keeps the name as it was written when the table was created. The catalog is
  therefore a map from folded names to entries, and an entry holds the declared name.
\<close>

record 'n row =
  id_x :: int
  cells :: "string \<Rightarrow> 'n sqlval"

record 'n table =
  rows :: "'n row list"
  sequence :: int

datatype 'n content = Generic "'n table" | Other

record 'n entry =
  declared :: string
  content :: "'n content"

record 'n d1 =
  engine :: "'n engine"
  tables :: "string \<Rightarrow> 'n entry option"

type_synonym 'n row_object = "(string \<times> 'n sqlval) list"

definition to_lower :: "char \<Rightarrow> char" where
  "to_lower c =
     (case map_of (zip ''ABCDEFGHIJKLMNOPQRSTUVWXYZ'' ''abcdefghijklmnopqrstuvwxyz'') c of
        Some l \<Rightarrow> l
      | None \<Rightarrow> c)"

definition fold_case :: "string \<Rightarrow> string" where
  "fold_case name = map to_lower name"

definition catalogued :: "'n d1 \<Rightarrow> string \<Rightarrow> 'n entry option" where
  "catalogued DB name = tables DB (fold_case name)"

definition empty_table :: "'n table" where
  "empty_table = \<lparr>rows = [], sequence = 0\<rparr>"

text \<open>The generic table a name stands for, when it stands for one.\<close>

definition generic_table :: "'n d1 \<Rightarrow> string \<Rightarrow> 'n table option" where
  "generic_table DB name =
     (case catalogued DB name of
        None \<Rightarrow> None
      | Some e \<Rightarrow> (case content e of Generic tb \<Rightarrow> Some tb | Other \<Rightarrow> None))"

text \<open>The primary key: no two rows of a table have the same \<open>id_x\<close>.\<close>

definition keys_unique :: "'n d1 \<Rightarrow> bool" where
  "keys_unique DB =
     (\<forall>k e tb. tables DB k = Some e \<and> content e = Generic tb \<longrightarrow> distinct (map id_x (rows tb)))"

text \<open>The number of rows of a generic table; a name that stands for none has none.\<close>

definition row_count :: "'n d1 \<Rightarrow> string \<Rightarrow> nat" where
  "row_count DB name = (case generic_table DB name of None \<Rightarrow> 0 | Some tb \<Rightarrow> length (rows tb))"

text \<open>
  \<open>SELECT name FROM sqlite_master WHERE type='table' AND name=?\<close>, then \<open>first()\<close>:
  a row or \<open>null\<close>; the handlers only test it for truth. The name is a bound value
  here, compared with the declared names letter by letter.
\<close>

definition sqlite_master_first :: "'n d1 \<Rightarrow> string \<Rightarrow> bool" where
  "sqlite_master_first DB name =
     (case catalogued DB name of None \<Rightarrow> False | Some e \<Rightarrow> declared e = name)"

text \<open>
  A statement that names a table in its text: the engine refuses the name, or finds no
  table, or finds the table. A statement that names a generic column of the table finds
  no such column in a table of another declaration.
\<close>

definition named_table :: "'n d1 \<Rightarrow> string \<Rightarrow> d1_error + 'n entry" where
  "named_table DB name =
     (case denied (engine DB) name of
        Some e \<Rightarrow> Inl e
      | None \<Rightarrow> (case catalogued DB name of None \<Rightarrow> Inl (NoSuchTable name) | Some e \<Rightarrow> Inr e))"

definition with_column :: "'n d1 \<Rightarrow> string \<Rightarrow> string \<Rightarrow> d1_error + ('n entry \<times> 'n table)" where
  "with_column DB name column =
     (case named_table DB name of
        Inl e \<Rightarrow> Inl e
      | Inr e \<Rightarrow> (case content e of Other \<Rightarrow> Inl (NoSuchColumn column) | Generic tb \<Rightarrow> Inr (e, tb)))"

text \<open>
  \<open>CREATE TABLE IF NOT EXISTS name (id_x INTEGER PRIMARY KEY AUTOINCREMENT, x_01 TEXT,
  ...)\<close>, then \<open>run()\<close>, whose result the handlers do not read. The engine
  refuses a name that it does not read as a table name and a name that it keeps for
  itself, also when a table of that name exists. With a name it admits, the statement
  leaves a table that exists as it is and otherwise adds the empty table, and with the
  first such table the engine's \<open>sqlite_sequence\<close>.
\<close>

definition sequence_table :: "'n entry" where
  "sequence_table = \<lparr>declared = ''sqlite_sequence'', content = Other\<rparr>"

definition with_sequence_table :: "(string \<Rightarrow> 'n entry option) \<Rightarrow> string \<Rightarrow> 'n entry option" where
  "with_sequence_table catalog =
     (case catalog ''sqlite_sequence'' of
        None \<Rightarrow> catalog(''sqlite_sequence'' \<mapsto> sequence_table)
      | Some e \<Rightarrow> catalog)"

definition added :: "'n d1 \<Rightarrow> string \<Rightarrow> 'n d1" where
  "added DB name =
     DB\<lparr>tables := (with_sequence_table (tables DB))
          (fold_case name \<mapsto> \<lparr>declared = name, content = Generic empty_table\<rparr>)\<rparr>"

definition create_table :: "'n d1 \<Rightarrow> string \<Rightarrow> (d1_error + unit) \<times> 'n d1" where
  "create_table DB name =
     (case denied (engine DB) name of
        Some e \<Rightarrow> (Inl e, DB)
      | None \<Rightarrow>
          (case reserved (engine DB) name of
             Some e \<Rightarrow> (Inl e, DB)
           | None \<Rightarrow>
               (case catalogued DB name of
                  Some e \<Rightarrow> (Inr (), DB)
                | None \<Rightarrow> (Inr (), added DB name))))"

text \<open>A row as a query returns it: the columns in the order of their declaration.\<close>

definition row_object :: "'n row \<Rightarrow> 'n row_object" where
  "row_object r = (''id_x'', SInt (id_x r)) # map (\<lambda>c. (c, cells r c)) text_columns"

definition matches_id :: "'n d1 \<Rightarrow> string \<Rightarrow> 'n row \<Rightarrow> bool" where
  "matches_id DB ident r = (coerce_id (engine DB) ident = Some (id_x r))"

text \<open>\<open>SELECT * FROM name ORDER BY id_x DESC\<close>, then \<open>all()\<close>; the handlers read
  \<open>results\<close> of what it returns.\<close>

definition select_all_desc :: "'n d1 \<Rightarrow> string \<Rightarrow> d1_error + 'n row_object list" where
  "select_all_desc DB name =
     (case with_column DB name ''id_x'' of
        Inl e \<Rightarrow> Inl e
      | Inr (e, tb) \<Rightarrow> Inr (map row_object (rev (sort_key id_x (rows tb)))))"

text \<open>\<open>SELECT columns FROM name WHERE id_x = ?\<close>, then \<open>first()\<close>: the first
  matching row in storage order, cut down to the selected columns, or \<open>null\<close>.\<close>

definition select_where_id ::
  "'n d1 \<Rightarrow> string \<Rightarrow> string list \<Rightarrow> string \<Rightarrow> d1_error + 'n row_object option" where
  "select_where_id DB name selected ident =
     (case with_column DB name ''id_x'' of
        Inl e \<Rightarrow> Inl e
      | Inr (e, tb) \<Rightarrow>
          (case find (matches_id DB ident) (rows tb) of
             None \<Rightarrow> Inr None
           | Some r \<Rightarrow> Inr (Some (filter (\<lambda>(c, v). c \<in> set selected) (row_object r)))))"

text \<open>
  \<open>INSERT INTO name (columns) VALUES (?, ...)\<close> with the values bound, then \<open>run()\<close>.
  The handlers name text columns only, and at least one. The new key is one more than
  the largest key in the table or handed out before; a column that is named stores its
  bound value as a text column does, and a column that is not named is \<open>NULL\<close>.
\<close>

definition next_id :: "'n table \<Rightarrow> int" where
  "next_id tb = max (sequence tb) (foldr max (map id_x (rows tb)) 0) + 1"

definition assign :: "string list \<Rightarrow> 'n sqlval list \<Rightarrow> (string \<Rightarrow> 'n sqlval) \<Rightarrow> string \<Rightarrow> 'n sqlval" where
  "assign columns bound old = (\<lambda>c. case map_of (rev (zip columns bound)) c of Some v \<Rightarrow> v | None \<Rightarrow> old c)"

definition stored :: "'n engine \<Rightarrow> 'n sqlval list \<Rightarrow> 'n sqlval list" where
  "stored E bound = map (text_affinity E) bound"

definition with_table :: "'n d1 \<Rightarrow> string \<Rightarrow> 'n entry \<Rightarrow> 'n table \<Rightarrow> 'n d1" where
  "with_table DB name e tb = DB\<lparr>tables := (tables DB)(fold_case name \<mapsto> e\<lparr>content := Generic tb\<rparr>)\<rparr>"

definition insert_into ::
  "('n::zero_neq_one) d1 \<Rightarrow> string \<Rightarrow> string list \<Rightarrow> 'n json option list \<Rightarrow>
     (d1_error + js_value) \<times> 'n d1" where
  "insert_into DB name columns vals =
     (case bind_all (engine DB) vals of
        Inl e \<Rightarrow> (Inl e, DB)
      | Inr bound \<Rightarrow>
          if columns = [] \<or> length bound \<noteq> length columns then (Inl SqlSyntax, DB)
          else (case with_column DB name (hd columns) of
             Inl e \<Rightarrow> (Inl e, DB)
           | Inr (e, tb) \<Rightarrow>
               (case find (\<lambda>c. c \<notin> set text_columns) columns of
                  Some c \<Rightarrow> (Inl (NoSuchColumn c), DB)
                | None \<Rightarrow>
                    let k = next_id tb;
                        r = \<lparr>id_x = k, cells = assign columns (stored (engine DB) bound) (\<lambda>c. SNull)\<rparr>
                    in (Inr (d1_result [(''changes'', JsNumber 1), (''last_row_id'', JsNumber k)]),
                        with_table DB name e \<lparr>rows = rows tb @ [r], sequence = k\<rparr>))))"

text \<open>\<open>UPDATE name SET c = ?, ... WHERE id_x = ?\<close> with the values and the id bound,
  then \<open>run()\<close>: every matching row takes the new values.\<close>

definition update_set ::
  "('n::zero_neq_one) d1 \<Rightarrow> string \<Rightarrow> string list \<Rightarrow> 'n json option list \<Rightarrow> string \<Rightarrow>
     (d1_error + js_value) \<times> 'n d1" where
  "update_set DB name columns vals ident =
     (case bind_all (engine DB) vals of
        Inl e \<Rightarrow> (Inl e, DB)
      | Inr bound \<Rightarrow>
          if columns = [] \<or> length bound \<noteq> length columns then (Inl SqlSyntax, DB)
          else (case with_column DB name (hd columns) of
             Inl e \<Rightarrow> (Inl e, DB)
           | Inr (e, tb) \<Rightarrow>
               (case find (\<lambda>c. c \<notin> set text_columns) columns of
                  Some c \<Rightarrow> (Inl (NoSuchColumn c), DB)
                | None \<Rightarrow>
                    (Inr (d1_result
                       [(''changes'', JsNumber (int (length (filter (matches_id DB ident) (rows tb)))))]),
                     with_table DB name e
                       (tb\<lparr>rows := map (\<lambda>r. if matches_id DB ident r
                                             then r\<lparr>cells := assign columns (stored (engine DB) bound) (cells r)\<rparr>
                                             else r) (rows tb)\<rparr>)))))"

text \<open>\<open>DELETE FROM name WHERE id_x = ?\<close> with the id bound, then \<open>run()\<close>.\<close>

definition delete_where_id :: "'n d1 \<Rightarrow> string \<Rightarrow> string \<Rightarrow> (d1_error + js_value) \<times> 'n d1" where
  "delete_where_id DB name ident =
     (case with_column DB name ''id_x'' of
        Inl e \<Rightarrow> (Inl e, DB)
      | Inr (e, tb) \<Rightarrow>
          (Inr (d1_result
             [(''changes'', JsNumber (int (length (filter (matches_id DB ident) (rows tb)))))]),
           with_table DB name e (tb\<lparr>rows := filter (\<lambda>r. \<not> matches_id DB ident r) (rows tb)\<rparr>)))"

section \<open>Requests and responses\<close>

text \<open>
  What a handler reads of the request: the method, the \<open>table\<close> query parameter, the
  \<open>X-Table-Name\<close> and \<open>Content-Type\<close> headers (\<open>None\<close> when absent), and the body,
  given by what \<open>JSON.parse\<close> makes of it (\<open>None\<close> when it raises).
  A response is its status (200 unless the handler sets one) and its body; the CORS
  headers, the same on every response, and the \<open>stack\<close> entry of error bodies are left
  out. A member of a body whose value is \<open>undefined\<close> (\<open>None\<close>) does not show in
  the text of the response.
\<close>

record 'n request =
  http_method :: string
  query_table :: "string option"
  header_table :: "string option"
  content_type :: "string option"
  json_body :: "'n json option"

datatype 'n body =
    NoBody
  | ErrorBody js_error
  | ListBody string nat "'n row_object list"
  | CreatedBody string "js_value option" "string list" "'n json"
  | ItemBody string "'n row_object"
  | UpdatedBody string "js_value option" "string list" "'n json"
  | DeletedBody string "js_value option" "'n row_object"
  | ContactsBody "'n row_object list"
  | ContactCreatedBody "js_value option"
  | ContactUpdatedBody "js_value option" "js_value option"
  | ContactDeletedBody "js_value option" "js_value option" "'n row_object"

record 'n response =
  status :: nat
  body :: "'n body"

text \<open>
  \<open>url.searchParams.get('table') || request.headers.get('X-Table-Name') || 'contacts'\<close>:
  the first operand that is a non-empty string.
\<close>

definition tableName_of :: "'n request \<Rightarrow> string" where
  "tableName_of request =
     (case query_table request of
        Some (c # cs) \<Rightarrow> c # cs
      | _ \<Rightarrow> (case header_table request of Some (c # cs) \<Rightarrow> c # cs | _ \<Rightarrow> ''contacts''))"

definition error_response :: "nat \<Rightarrow> js_error \<Rightarrow> 'n response" where
  "error_response code e = \<lparr>status = code, body = ErrorBody e\<rparr>"

definition invalid_table_name :: js_error where
  "invalid_table_name =
     Error ''Invalid table name. Only alphanumeric characters and underscores allowed.''"

definition method_not_allowed :: "string \<Rightarrow> 'n response" where
  "method_not_allowed m =
     \<lparr>status = 405, body = ErrorBody (Error (''Method '' @ m @ '' not allowed''))\<rparr>"

section \<open>The collection endpoint with auto-create\<close>

text \<open>
  \<^verbatim>\<open>src/unnamed/part_000\<close>. \<open>createTableIfNotExists\<close> runs the one \<open>CREATE TABLE IF NOT
  EXISTS\<close> statement. Every handler of the auto-create variants starts with the same
  block, named \<open>ensureTable\<close> here:
  \<^verbatim>\<open>
  const tableCheck = await DB_PENERBIT.prepare(`
    SELECT name FROM sqlite_master WHERE type='table' AND name=?
  `).bind(tableName).first();
  if (!tableCheck) {
    await createTableIfNotExists(DB_PENERBIT, tableName);
  }
  \<close>
\<close>

definition createTableIfNotExists :: "'n d1 \<Rightarrow> string \<Rightarrow> (d1_error + unit) \<times> 'n d1" where
  "createTableIfNotExists DB tableName = create_table DB tableName"

definition ensureTable :: "'n d1 \<Rightarrow> string \<Rightarrow> (d1_error + unit) \<times> 'n d1" where
  "ensureTable DB tableName =
     (if \<not> sqlite_master_first DB tableName then createTableIfNotExists DB tableName
      else (Inr (), DB))"

text \<open>\<open>getContacts\<close> catches every error of its body and answers 400.\<close>

definition get_failed :: "string \<Rightarrow> d1_error \<Rightarrow> 'n response" where
  "get_failed tableName e =
     \<lparr>status = 400,
      body = ErrorBody (ErrorFrom (''Failed to get data from table '' @ quoted tableName @ '': '')
               (D1Error e))\<rparr>"

definition getContacts :: "'n d1 \<Rightarrow> string \<Rightarrow> 'n response \<times> 'n d1" where
  "getContacts DB tableName =
     (case ensureTable DB tableName of
        (Inl e, DB1) \<Rightarrow> (get_failed tableName e, DB1)
      | (Inr u, DB1) \<Rightarrow>
          (case select_all_desc DB1 tableName of
             Inl e \<Rightarrow> (get_failed tableName e, DB1)
           | Inr results \<Rightarrow>
               (\<lparr>status = 200, body = ListBody tableName (length results) results\<rparr>, DB1)))"

text \<open>
  \<open>createContact\<close> raises: \<open>Invalid JSON data\<close> when the body does not parse, before
  it touches the datastore, and, for every error of its second \<open>try\<close> block (the
  empty field set among them), a new error that wraps the message. The response shows
  \<open>result.meta.last_row_id\<close> as \<open>id_x\<close>.
\<close>

definition save_failed :: "string \<Rightarrow> js_error \<Rightarrow> js_error" where
  "save_failed tableName e =
     ErrorFrom (''Failed to save record to table '' @ quoted tableName @ '': '') e"

definition created :: "string \<Rightarrow> js_value \<Rightarrow> string list \<Rightarrow> 'n json \<Rightarrow> js_error + 'n response" where
  "created tableName result columns requestData =
     (case member_of (js_member result ''meta'') ''last_row_id'' of
        Inl e \<Rightarrow> Inl (save_failed tableName e)
      | Inr k \<Rightarrow> Inr \<lparr>status = 200, body = CreatedBody tableName k columns requestData\<rparr>)"

definition createContact ::
  "('n::zero_neq_one) request \<Rightarrow> 'n d1 \<Rightarrow> string \<Rightarrow> (js_error + 'n response) \<times> 'n d1" where
  "createContact request DB tableName =
     (case json_body request of
        None \<Rightarrow> (Inl (Error ''Invalid JSON data''), DB)
      | Some requestData \<Rightarrow>
          (case ensureTable DB tableName of
             (Inl e, DB1) \<Rightarrow> (Inl (save_failed tableName (D1Error e)), DB1)
           | (Inr u, DB1) \<Rightarrow>
               (case encode requestData of
                  Inl e \<Rightarrow> (Inl (save_failed tableName e), DB1)
                | Inr (columns, vals) \<Rightarrow>
                    if columns = []
                    then (Inl (save_failed tableName
                                 (Error ''At least one field (x_01 to x_20) is required'')), DB1)
                    else (case insert_into DB1 tableName columns vals of
                       (Inl e, DB2) \<Rightarrow> (Inl (save_failed tableName (D1Error e)), DB2)
                     | (Inr result, DB2) \<Rightarrow>
                         (created tableName result columns requestData, DB2)))))"

text \<open>
  \<open>onRequest\<close> of the collection endpoint. It takes \<open>DB_PENERBIT\<close> from the
  environment without a check; the model takes a bound datastore. An error raised by a
  handler is answered with status 500 and the error's message.
\<close>

definition onRequest :: "('n::zero_neq_one) request \<Rightarrow> 'n d1 \<Rightarrow> 'n response \<times> 'n d1" where
  "onRequest request DB_PENERBIT =
     (let tableName = tableName_of request in
      if http_method request = ''OPTIONS'' then (\<lparr>status = 200, body = NoBody\<rparr>, DB_PENERBIT)
      else if \<not> isValidTableName tableName then (error_response 400 invalid_table_name, DB_PENERBIT)
      else if http_method request = ''GET'' then getContacts DB_PENERBIT tableName
      else if http_method request = ''POST'' then
        (case createContact request DB_PENERBIT tableName of
           (Inl error, DB') \<Rightarrow> (\<lparr>status = 500, body = ErrorBody error\<rparr>, DB')
         | (Inr response, DB') \<Rightarrow> (response, DB'))
      else (method_not_allowed (http_method request), DB_PENERBIT))"

section \<open>The item endpoint with auto-create\<close>

text \<open>
  \<^verbatim>\<open>src/functions/api/contacts/[id].js\<close>. Each of the three handlers wraps its whole
  body in \<open>try\<close> and answers a caught error with status 400, so no error reaches the
  \<open>catch\<close> of \<open>onRequest\<close>. \<open>SELECT *\<close> selects the key and the twenty columns.
  The update and the delete handler show \<open>updateResult.changes\<close> and
  \<open>deleteResult.changes\<close> as \<open>changes\<close>: a member of the result itself, not of
  its \<open>meta\<close>.
\<close>

definition all_columns :: "string list" where
  "all_columns = ''id_x'' # text_columns"

definition record_not_found :: "string \<Rightarrow> 'n response" where
  "record_not_found tableName =
     \<lparr>status = 404, body = ErrorBody (Error (''Record not found in table '' @ quoted tableName))\<rparr>"

definition failed_in :: "string \<Rightarrow> string \<Rightarrow> js_error \<Rightarrow> 'n response" where
  "failed_in what tableName e =
     \<lparr>status = 400, body = ErrorBody (ErrorFrom (what @ quoted tableName @ '': '') e)\<rparr>"

definition handleGetSingle :: "'n d1 \<Rightarrow> string \<Rightarrow> string \<Rightarrow> 'n response \<times> 'n d1" where
  "handleGetSingle DB tableName ident =
     (case ensureTable DB tableName of
        (Inl e, DB1) \<Rightarrow> (failed_in ''Get failed from table '' tableName (D1Error e), DB1)
      | (Inr u, DB1) \<Rightarrow>
          (case select_where_id DB1 tableName all_columns ident of
             Inl e \<Rightarrow> (failed_in ''Get failed from table '' tableName (D1Error e), DB1)
           | Inr None \<Rightarrow> (record_not_found tableName, DB1)
           | Inr (Some result) \<Rightarrow>
               (\<lparr>status = 200, body = ItemBody tableName result\<rparr>, DB1)))"

definition is_json_content_type :: "string option \<Rightarrow> bool" where
  "is_json_content_type contentType =
     (case contentType of None \<Rightarrow> False | Some ct \<Rightarrow> ct \<noteq> [] \<and> js_includes ct ''application/json'')"

definition handleUpdate ::
  "('n::zero_neq_one) request \<Rightarrow> 'n d1 \<Rightarrow> string \<Rightarrow> string \<Rightarrow> 'n response \<times> 'n d1" where
  "handleUpdate request DB tableName ident =
     (case ensureTable DB tableName of
        (Inl e, DB1) \<Rightarrow> (failed_in ''Update failed in table '' tableName (D1Error e), DB1)
      | (Inr u, DB1) \<Rightarrow>
          if \<not> is_json_content_type (content_type request)
          then (failed_in ''Update failed in table '' tableName
                  (Error ''Content-Type must be application/json''), DB1)
          else (case json_body request of
             None \<Rightarrow> (failed_in ''Update failed in table '' tableName SyntaxError, DB1)
           | Some data \<Rightarrow>
               (case select_where_id DB1 tableName [''id_x''] ident of
                  Inl e \<Rightarrow> (failed_in ''Update failed in table '' tableName (D1Error e), DB1)
                | Inr None \<Rightarrow> (record_not_found tableName, DB1)
                | Inr (Some existsResult) \<Rightarrow>
                    (case encode data of
                       Inl e \<Rightarrow> (failed_in ''Update failed in table '' tableName e, DB1)
                     | Inr (updateFields, updateValues) \<Rightarrow>
                         if updateFields = []
                         then (failed_in ''Update failed in table '' tableName
                                 (Error ''At least one field (x_01 to x_20) is required for update''),
                               DB1)
                         else (case update_set DB1 tableName updateFields updateValues ident of
                            (Inl e, DB2) \<Rightarrow>
                              (failed_in ''Update failed in table '' tableName (D1Error e), DB2)
                          | (Inr updateResult, DB2) \<Rightarrow>
                              (\<lparr>status = 200,
                                body = UpdatedBody tableName (js_member updateResult ''changes'')
                                         updateFields data\<rparr>, DB2))))))"

definition handleDelete :: "'n d1 \<Rightarrow> string \<Rightarrow> string \<Rightarrow> 'n response \<times> 'n d1" where
  "handleDelete DB tableName ident =
     (case ensureTable DB tableName of
        (Inl e, DB1) \<Rightarrow> (failed_in ''Delete failed from table '' tableName (D1Error e), DB1)
      | (Inr u, DB1) \<Rightarrow>
          (case select_where_id DB1 tableName [''id_x'', ''x_01'', ''x_02'', ''x_03''] ident of
             Inl e \<Rightarrow> (failed_in ''Delete failed from table '' tableName (D1Error e), DB1)
           | Inr None \<Rightarrow> (record_not_found tableName, DB1)
           | Inr (Some existsResult) \<Rightarrow>
               (case delete_where_id DB1 tableName ident of
                  (Inl e, DB2) \<Rightarrow>
                    (failed_in ''Delete failed from table '' tableName (D1Error e), DB2)
                | (Inr deleteResult, DB2) \<Rightarrow>
                    (\<lparr>status = 200,
                      body = DeletedBody tableName (js_member deleteResult ''changes'')
                               existsResult\<rparr>, DB2))))"

text \<open>
  The context of the item endpoint: the request, the binding of the environment
  (\<open>None\<close> when it is not bound, which \<open>onRequest\<close> checks) and the path parameter.
\<close>

record 'n item_context =
  ctx_request :: "'n request"
  ctx_DB :: "'n d1 option"
  ctx_id :: "string option"

definition with_binding :: "'n response \<times> 'n d1 \<Rightarrow> 'n response \<times> 'n d1 option" where
  "with_binding result = (fst result, Some (snd result))"

definition item_onRequest ::
  "('n::zero_neq_one) item_context \<Rightarrow> 'n response \<times> 'n d1 option" where
  "item_onRequest ctx =
     (let request = ctx_request ctx; tableName = tableName_of request in
      if http_method request = ''OPTIONS'' then (\<lparr>status = 200, body = NoBody\<rparr>, ctx_DB ctx)
      else (case ctx_DB ctx of
         None \<Rightarrow> (error_response 500 (Error ''Database not available''), None)
       | Some DB \<Rightarrow>
           if \<not> isValidTableName tableName then (error_response 400 invalid_table_name, Some DB)
           else (case ctx_id ctx of
              None \<Rightarrow> (error_response 400 (Error ''No ID provided''), Some DB)
            | Some [] \<Rightarrow> (error_response 400 (Error ''No ID provided''), Some DB)
            | Some (c # cs) \<Rightarrow>
                if http_method request = ''GET'' then with_binding (handleGetSingle DB tableName (c # cs))
                else if http_method request = ''PUT''
                  then with_binding (handleUpdate request DB tableName (c # cs))
                else if http_method request = ''DELETE''
                  then with_binding (handleDelete DB tableName (c # cs))
                else (method_not_allowed (http_method request), Some DB))))"

section \<open>The collection endpoint that rejects a missing table\<close>

text \<open>
  \<^verbatim>\<open>src/functions/api/contacts2.js\<close>, lines 1 to 177: the handlers of the auto-create
  variant with the provisioning block replaced by a 404 answer.
\<close>

definition table_does_not_exist :: "string \<Rightarrow> 'n response" where
  "table_does_not_exist tableName =
     \<lparr>status = 404,
      body = ErrorBody (Error (''Table '' @ quoted tableName @ '' does not exist''))\<rparr>"

definition strict_getContacts :: "'n d1 \<Rightarrow> string \<Rightarrow> 'n response \<times> 'n d1" where
  "strict_getContacts DB tableName =
     (if \<not> sqlite_master_first DB tableName then (table_does_not_exist tableName, DB)
      else (case select_all_desc DB tableName of
         Inl e \<Rightarrow> (get_failed tableName e, DB)
       | Inr results \<Rightarrow>
           (\<lparr>status = 200, body = ListBody tableName (length results) results\<rparr>, DB)))"

definition strict_createContact ::
  "('n::zero_neq_one) request \<Rightarrow> 'n d1 \<Rightarrow> string \<Rightarrow> (js_error + 'n response) \<times> 'n d1" where
  "strict_createContact request DB tableName =
     (case json_body request of
        None \<Rightarrow> (Inl (Error ''Invalid JSON data''), DB)
      | Some requestData \<Rightarrow>
          if \<not> sqlite_master_first DB tableName then (Inr (table_does_not_exist tableName), DB)
          else (case encode requestData of
             Inl e \<Rightarrow> (Inl (save_failed tableName e), DB)
           | Inr (columns, vals) \<Rightarrow>
               if columns = []
               then (Inl (save_failed tableName
                            (Error ''At least one field (x_01 to x_20) is required'')), DB)
               else (case insert_into DB tableName columns vals of
                  (Inl e, DB2) \<Rightarrow> (Inl (save_failed tableName (D1Error e)), DB2)
                | (Inr result, DB2) \<Rightarrow>
                    (created tableName result columns requestData, DB2))))"

definition strict_onRequest :: "('n::zero_neq_one) request \<Rightarrow> 'n d1 \<Rightarrow> 'n response \<times> 'n d1" where
  "strict_onRequest request DB_LATIHAN1 =
     (let tableName = tableName_of request in
      if http_method request = ''OPTIONS'' then (\<lparr>status = 200, body = NoBody\<rparr>, DB_LATIHAN1)
      else if \<not> isValidTableName tableName then (error_response 400 invalid_table_name, DB_LATIHAN1)
      else if http_method request = ''GET'' then strict_getContacts DB_LATIHAN1 tableName
      else if http_method request = ''POST'' then
        (case strict_createContact request DB_LATIHAN1 tableName of
           (Inl error, DB') \<Rightarrow> (\<lparr>status = 500, body = ErrorBody error\<rparr>, DB')
         | (Inr response, DB') \<Rightarrow> (response, DB'))
      else (method_not_allowed (http_method request), DB_LATIHAN1))"

section \<open>The fixed-schema endpoints\<close>

text \<open>
  \<^verbatim>\<open>src/functions/api/contacts2.js\<close>, lines 177 to 274, and
  \<^verbatim>\<open>src/functions/api/contacts/[id]1.js\<close>: the handlers name the one table \<open>contacts\<close>
  in their statements and never look a table up in the catalog.
\<close>

text \<open>
  Modelled from the spec: the declaration of the table \<open>contacts\<close>, which is not among
  the sources. The spec gives a row the fields \<open>id\<close>, \<open>name\<close>, \<open>email\<close>,
  \<open>message\<close> and \<open>created_at\<close>. The key is taken to be an integer the engine assigns
  and \<open>created_at\<close> the time of insertion, read from a clock of the datastore; the
  types of the other columns are not given, and a cell keeps the value bound to it. The
  datastore either has the table or does not.
\<close>

record 'n contact =
  contact_id :: int
  contact_name :: "'n sqlval"
  contact_email :: "'n sqlval"
  contact_message :: "'n sqlval"
  contact_created_at :: nat

record 'n legacy_d1 =
  legacy_engine :: "'n engine"
  contacts :: "'n contact list option"
  clock :: nat

definition contact_object :: "'n contact \<Rightarrow> 'n row_object" where
  "contact_object c =
     [(''id'', SInt (contact_id c)), (''name'', contact_name c), (''email'', contact_email c),
      (''message'', contact_message c), (''created_at'', SInt (int (contact_created_at c)))]"

definition matches_contact :: "'n legacy_d1 \<Rightarrow> string \<Rightarrow> 'n contact \<Rightarrow> bool" where
  "matches_contact DB ident c = (coerce_id (legacy_engine DB) ident = Some (contact_id c))"

text \<open>\<open>SELECT * FROM contacts ORDER BY created_at DESC\<close>, then \<open>all()\<close>.\<close>

definition contacts_all_desc :: "'n legacy_d1 \<Rightarrow> d1_error + 'n row_object list" where
  "contacts_all_desc DB =
     (case contacts DB of
        None \<Rightarrow> Inl (NoSuchTable ''contacts'')
      | Some cs \<Rightarrow> Inr (map contact_object (rev (sort_key contact_created_at cs))))"

text \<open>\<open>SELECT columns FROM contacts WHERE id = ?\<close>, then \<open>first()\<close>.\<close>

definition contacts_where_id ::
  "'n legacy_d1 \<Rightarrow> string list \<Rightarrow> string \<Rightarrow> d1_error + 'n row_object option" where
  "contacts_where_id DB selected ident =
     (case contacts DB of
        None \<Rightarrow> Inl (NoSuchTable ''contacts'')
      | Some cs \<Rightarrow>
          (case find (matches_contact DB ident) cs of
             None \<Rightarrow> Inr None
           | Some c \<Rightarrow> Inr (Some (filter (\<lambda>(k, v). k \<in> set selected) (contact_object c)))))"

text \<open>\<open>INSERT INTO contacts (name, email, message) VALUES (?, ?, ?)\<close>, then \<open>run()\<close>.\<close>

definition sql_contacts_insert ::
  "('n::zero_neq_one) legacy_d1 \<Rightarrow> 'n json option \<Rightarrow> 'n json option \<Rightarrow> 'n json option \<Rightarrow>
     (d1_error + js_value) \<times> 'n legacy_d1" where
  "sql_contacts_insert DB name email message =
     (case bind_all (legacy_engine DB) [name, email, message] of
        Inr [n, e, m] \<Rightarrow>
          (case contacts DB of
             None \<Rightarrow> (Inl (NoSuchTable ''contacts''), DB)
           | Some cs \<Rightarrow>
               let k = foldr max (map contact_id cs) 0 + 1;
                   c = \<lparr>contact_id = k, contact_name = n, contact_email = e,
                        contact_message = m, contact_created_at = clock DB\<rparr>
               in (Inr (d1_result [(''changes'', JsNumber 1), (''last_row_id'', JsNumber k)]),
                   DB\<lparr>contacts := Some (cs @ [c])\<rparr>))
      | _ \<Rightarrow> (Inl D1_TYPE_ERROR, DB))"

text \<open>\<open>UPDATE contacts SET name = ?, email = ?, message = ? WHERE id = ?\<close>, then
  \<open>run()\<close>.\<close>

definition sql_contacts_update ::
  "('n::zero_neq_one) legacy_d1 \<Rightarrow> 'n json option \<Rightarrow> 'n json option \<Rightarrow> 'n json option \<Rightarrow> string \<Rightarrow>
     (d1_error + js_value) \<times> 'n legacy_d1" where
  "sql_contacts_update DB name email message ident =
     (case bind_all (legacy_engine DB) [name, email, message] of
        Inr [n, e, m] \<Rightarrow>
          (case contacts DB of
             None \<Rightarrow> (Inl (NoSuchTable ''contacts''), DB)
           | Some cs \<Rightarrow>
               (Inr (d1_result
                  [(''changes'', JsNumber (int (length (filter (matches_contact DB ident) cs))))]),
                DB\<lparr>contacts := Some (map (\<lambda>c. if matches_contact DB ident c
                     then c\<lparr>contact_name := n, contact_email := e, contact_message := m\<rparr>
                     else c) cs)\<rparr>))
      | _ \<Rightarrow> (Inl D1_TYPE_ERROR, DB))"

text \<open>\<open>DELETE FROM contacts WHERE id = ?\<close>, then \<open>run()\<close>.\<close>

definition sql_contacts_delete :: "'n legacy_d1 \<Rightarrow> string \<Rightarrow> (d1_error + js_value) \<times> 'n legacy_d1" where
  "sql_contacts_delete DB ident =
     (case contacts DB of
        None \<Rightarrow> (Inl (NoSuchTable ''contacts''), DB)
      | Some cs \<Rightarrow>
          (Inr (d1_result
             [(''changes'', JsNumber (int (length (filter (matches_contact DB ident) cs))))]),
           DB\<lparr>contacts := Some (filter (\<lambda>c. \<not> matches_contact DB ident c) cs)\<rparr>))"

text \<open>
  What the validation of the fixed-schema handlers does with a JSON value: \<open>!v\<close>,
  \<open>v.includes('@')\<close> (a method of strings and of arrays only) and \<open>v.trim()\<close> (a
  method of strings only; it strips the white space and line terminators of the
  language, listed in \<open>white_space\<close> by their encodings, from both ends). A number
  parsed from JSON is false exactly when it is zero.
\<close>

definition truthy :: "('n::zero_neq_one) json option \<Rightarrow> bool" where
  "truthy v =
     (case v of
        None \<Rightarrow> False
      | Some JNull \<Rightarrow> False
      | Some (JBool b) \<Rightarrow> b
      | Some (JNum n) \<Rightarrow> n \<noteq> 0
      | Some (JStr s) \<Rightarrow> s \<noteq> []
      | Some (JArr xs) \<Rightarrow> True
      | Some (JObj kvs) \<Rightarrow> True)"

definition includes_at :: "'n json option \<Rightarrow> js_error + bool" where
  "includes_at v =
     (case v of
        Some (JStr s) \<Rightarrow> Inr (js_includes s ''@'')
      | Some (JArr xs) \<Rightarrow> Inr (JStr ''@'' \<in> set xs)
      | _ \<Rightarrow> Inl TypeError)"

definition white_space :: "string list" where
  "white_space =
     [[CHR 0x09], [CHR 0x0A], [CHR 0x0B], [CHR 0x0C], [CHR 0x0D], [CHR 0x20],
      [CHR 0xC2, CHR 0xA0], [CHR 0xE1, CHR 0x9A, CHR 0x80],
      [CHR 0xE2, CHR 0x80, CHR 0x80], [CHR 0xE2, CHR 0x80, CHR 0x81],
      [CHR 0xE2, CHR 0x80, CHR 0x82], [CHR 0xE2, CHR 0x80, CHR 0x83],
      [CHR 0xE2, CHR 0x80, CHR 0x84], [CHR 0xE2, CHR 0x80, CHR 0x85],
      [CHR 0xE2, CHR 0x80, CHR 0x86], [CHR 0xE2, CHR 0x80, CHR 0x87],
      [CHR 0xE2, CHR 0x80, CHR 0x88], [CHR 0xE2, CHR 0x80, CHR 0x89],
      [CHR 0xE2, CHR 0x80, CHR 0x8A], [CHR 0xE2, CHR 0x80, CHR 0xA8],
      [CHR 0xE2, CHR 0x80, CHR 0xA9], [CHR 0xE2, CHR 0x80, CHR 0xAF],
      [CHR 0xE2, CHR 0x81, CHR 0x9F], [CHR 0xE3, CHR 0x80, CHR 0x80],
      [CHR 0xEF, CHR 0xBB, CHR 0xBF]]"

function strip_start :: "string list \<Rightarrow> string \<Rightarrow> string" where
  "strip_start ws s =
     (case find (\<lambda>w. w \<noteq> [] \<and> take (length w) s = w) ws of
        None \<Rightarrow> s
      | Some w \<Rightarrow> strip_start ws (drop (length w) s))"
  by pat_completeness auto
termination
proof (relation "measure (\<lambda>(ws, s). length s)")
  show "wf (measure (\<lambda>(ws, s). length s))" by simp
next
  fix ws :: "string list" and s w :: string
  assume "find (\<lambda>w. w \<noteq> [] \<and> take (length w) s = w) ws = Some w"
  then have "w \<noteq> []" and "take (length w) s = w" by (auto simp: find_Some_iff)
  then have "s \<noteq> []" by auto
  with \<open>w \<noteq> []\<close> show "((ws, drop (length w) s), (ws, s)) \<in> measure (\<lambda>(ws, s). length s)"
    by simp
qed

declare strip_start.simps [simp del]

definition trim :: "string \<Rightarrow> string" where
  "trim s = rev (strip_start (map rev white_space) (rev (strip_start white_space s)))"

definition trimmed :: "'n json option \<Rightarrow> js_error + 'n json option" where
  "trimmed v = (case v of Some (JStr s) \<Rightarrow> Inr (Some (JStr (trim s))) | _ \<Rightarrow> Inl TypeError)"

text \<open>\<open>const { name, email, message } = data\<close> raises a TypeError on \<open>null\<close>.\<close>

definition destructure ::
  "'n json \<Rightarrow> js_error + ('n json option \<times> 'n json option \<times> 'n json option)" where
  "destructure data =
     (case data of
        JNull \<Rightarrow> Inl TypeError
      | _ \<Rightarrow> Inr (property data ''name'', property data ''email'', property data ''message''))"

text \<open>The collection endpoint, \<^verbatim>\<open>contacts2.js\<close> lines 177 to 274.\<close>

definition legacy_getContacts :: "'n legacy_d1 \<Rightarrow> (js_error + 'n response) \<times> 'n legacy_d1" where
  "legacy_getContacts DB =
     (case contacts_all_desc DB of
        Inl e \<Rightarrow> (Inl (D1Error e), DB)
      | Inr results \<Rightarrow> (Inr \<lparr>status = 200, body = ContactsBody results\<rparr>, DB))"

definition legacy_createContact ::
  "('n::zero_neq_one) request \<Rightarrow> 'n legacy_d1 \<Rightarrow> (js_error + 'n response) \<times> 'n legacy_d1" where
  "legacy_createContact request DB =
     (case json_body request of
        None \<Rightarrow> (Inl (Error ''Invalid JSON data''), DB)
      | Some requestData \<Rightarrow>
          (case destructure requestData of
             Inl e \<Rightarrow> (Inl e, DB)
           | Inr (name, email, message) \<Rightarrow>
               if \<not> truthy name \<or> \<not> truthy email \<or> \<not> truthy message
               then (Inl (Error ''Name, email, and message are required''), DB)
               else (case includes_at email of
                  Inl e \<Rightarrow> (Inl e, DB)
                | Inr at \<Rightarrow>
                    if \<not> at then (Inl (Error ''Invalid email format''), DB)
                    else (case (trimmed name, trimmed email, trimmed message) of
                       (Inr n, Inr e, Inr m) \<Rightarrow>
                         (case sql_contacts_insert DB n e m of
                            (Inl err, DB2) \<Rightarrow>
                              (Inl (Error ''Failed to save contact to database''), DB2)
                          | (Inr result, DB2) \<Rightarrow>
                              (case member_of (js_member result ''meta'') ''last_row_id'' of
                                 Inl err \<Rightarrow>
                                   (Inl (Error ''Failed to save contact to database''), DB2)
                               | Inr k \<Rightarrow>
                                   (Inr \<lparr>status = 200, body = ContactCreatedBody k\<rparr>, DB2)))
                     | _ \<Rightarrow> (Inl (Error ''Failed to save contact to database''), DB)))))"

definition legacy_onRequest :: "('n::zero_neq_one) request \<Rightarrow> 'n legacy_d1 \<Rightarrow> 'n response \<times> 'n legacy_d1" where
  "legacy_onRequest request DB_LATIHAN1 =
     (if http_method request = ''OPTIONS'' then (\<lparr>status = 200, body = NoBody\<rparr>, DB_LATIHAN1)
      else (case (if http_method request = ''GET'' then legacy_getContacts DB_LATIHAN1
                  else if http_method request = ''POST'' then legacy_createContact request DB_LATIHAN1
                  else (Inr (method_not_allowed (http_method request)), DB_LATIHAN1)) of
         (Inl error, DB') \<Rightarrow> (\<lparr>status = 500, body = ErrorBody error\<rparr>, DB')
       | (Inr response, DB') \<Rightarrow> (response, DB')))"

text \<open>The item endpoint, \<^verbatim>\<open>[id]1.js\<close>. Both handlers answer a caught error with 400,
  and show \<open>changes\<close> and \<open>meta\<close> of the result of their statement.\<close>

definition legacy_failed :: "string \<Rightarrow> js_error \<Rightarrow> 'n response" where
  "legacy_failed what e = \<lparr>status = 400, body = ErrorBody (ErrorFrom what e)\<rparr>"

definition legacy_handleUpdate ::
  "('n::zero_neq_one) request \<Rightarrow> 'n legacy_d1 \<Rightarrow> string \<Rightarrow> 'n response \<times> 'n legacy_d1" where
  "legacy_handleUpdate request DB ident =
     (if \<not> is_json_content_type (content_type request)
      then (legacy_failed ''Update failed: '' (Error ''Content-Type must be application/json''), DB)
      else (case json_body request of
         None \<Rightarrow> (legacy_failed ''Update failed: '' SyntaxError, DB)
       | Some data \<Rightarrow>
           (case destructure data of
              Inl e \<Rightarrow> (legacy_failed ''Update failed: '' e, DB)
            | Inr (name, email, message) \<Rightarrow>
                if \<not> truthy name \<or> \<not> truthy email \<or> \<not> truthy message
                then (legacy_failed ''Update failed: ''
                        (Error ''Missing required fields: name, email, message''), DB)
                else (case contacts_where_id DB [''id''] ident of
                   Inl e \<Rightarrow> (legacy_failed ''Update failed: '' (D1Error e), DB)
                 | Inr None \<Rightarrow> (error_response 404 (Error ''Contact not found''), DB)
                 | Inr (Some existsResult) \<Rightarrow>
                     (case sql_contacts_update DB name email message ident of
                        (Inl e, DB2) \<Rightarrow> (legacy_failed ''Update failed: '' (D1Error e), DB2)
                      | (Inr updateResult, DB2) \<Rightarrow>
                          (\<lparr>status = 200,
                            body = ContactUpdatedBody (js_member updateResult ''changes'')
                                     (js_member updateResult ''meta'')\<rparr>, DB2))))))"

definition legacy_handleDelete :: "'n legacy_d1 \<Rightarrow> string \<Rightarrow> 'n response \<times> 'n legacy_d1" where
  "legacy_handleDelete DB ident =
     (case contacts_where_id DB [''id'', ''name''] ident of
        Inl e \<Rightarrow> (legacy_failed ''Delete failed: '' (D1Error e), DB)
      | Inr None \<Rightarrow> (error_response 404 (Error ''Contact not found''), DB)
      | Inr (Some existsResult) \<Rightarrow>
          (case sql_contacts_delete DB ident of
             (Inl e, DB2) \<Rightarrow> (legacy_failed ''Delete failed: '' (D1Error e), DB2)
           | (Inr deleteResult, DB2) \<Rightarrow>
               (\<lparr>status = 200,
                 body = ContactDeletedBody (js_member deleteResult ''changes'')
                          (js_member deleteResult ''meta'') existsResult\<rparr>, DB2)))"

record 'n legacy_item_context =
  legacy_request :: "'n request"
  legacy_DB :: "'n legacy_d1 option"
  legacy_id :: "string option"

definition legacy_with_binding ::
  "'n response \<times> 'n legacy_d1 \<Rightarrow> 'n response \<times> 'n legacy_d1 option" where
  "legacy_with_binding result = (fst result, Some (snd result))"

definition legacy_item_onRequest ::
  "('n::zero_neq_one) legacy_item_context \<Rightarrow> 'n response \<times> 'n legacy_d1 option" where
  "legacy_item_onRequest ctx =
     (let request = legacy_request ctx in
      if http_method request = ''OPTIONS'' then (\<lparr>status = 200, body = NoBody\<rparr>, legacy_DB ctx)
      else (case legacy_DB ctx of
         None \<Rightarrow> (error_response 500 (Error ''Database not available''), None)
       | Some DB \<Rightarrow>
           (case legacy_id ctx of
              None \<Rightarrow> (error_response 400 (Error ''No ID provided''), Some DB)
            | Some [] \<Rightarrow> (error_response 400 (Error ''No ID provided''), Some DB)
            | Some (c # cs) \<Rightarrow>
                if http_method request = ''PUT''
                  then legacy_with_binding (legacy_handleUpdate request DB (c # cs))
                else if http_method request = ''DELETE''
                  then legacy_with_binding (legacy_handleDelete DB (c # cs))
                else (method_not_allowed (http_method request), Some DB))))"

section \<open>Concrete requests and datastores\<close>

text \<open>
  Inputs at which the theorems below are instantiated. A request that names its table in
  the query string. An engine over integer numbers that refuses the words \<open>select\<close>,
  \<open>order\<close> and \<open>table\<close> in the place of a table name, keeps the names that begin
  with \<open>sqlite_\<close> for itself, takes the integers from 0 to 255 as bytes and stores a
  number as its decimal text with one decimal place; its coercion rule is given. A
  datastore without tables, and a datastore with one generic table beside the engine's
  \<open>sqlite_sequence\<close>.
\<close>

definition request_for ::
  "string \<Rightarrow> string \<Rightarrow> string option \<Rightarrow> 'n json option \<Rightarrow> 'n request" where
  "request_for m name contentType parsed =
     \<lparr>http_method = m, query_table = Some name, header_table = None,
      content_type = contentType, json_body = parsed\<rparr>"

definition refused_word :: "string \<Rightarrow> d1_error option" where
  "refused_word name =
     (if fold_case name \<in> set [''select'', ''order'', ''table''] then Some SqlSyntax else None)"

definition internal_name :: "string \<Rightarrow> d1_error option" where
  "internal_name name =
     (if take 7 (fold_case name) = ''sqlite_'' then Some (ReservedName name) else None)"

definition byte_of_int :: "int \<Rightarrow> nat option" where
  "byte_of_int n = (if 0 \<le> n \<and> n < 256 then Some (nat n) else None)"

definition decimal_text :: "int \<Rightarrow> string" where
  "decimal_text n =
     (if n < 0 then ''-'' @ toString (nat (- n)) else toString (nat n)) @ ''.0''"

definition engine_with :: "(string \<Rightarrow> int option) \<Rightarrow> int engine" where
  "engine_with coercion =
     \<lparr>denied = refused_word, reserved = internal_name, coerce_id = coercion,
      as_byte = byte_of_int, number_stored = (\<lambda>n. SText (decimal_text n))\<rparr>"

definition store_without_tables :: "(string \<Rightarrow> int option) \<Rightarrow> int d1" where
  "store_without_tables coercion = \<lparr>engine = engine_with coercion, tables = (\<lambda>name. None)\<rparr>"

definition store_with_table :: "(string \<Rightarrow> int option) \<Rightarrow> string \<Rightarrow> int table \<Rightarrow> int d1" where
  "store_with_table coercion name tb =
     \<lparr>engine = engine_with coercion,
      tables = (with_sequence_table (\<lambda>name. None))
                 (fold_case name \<mapsto> \<lparr>declared = name, content = Generic tb\<rparr>)\<rparr>"

definition one_only :: "string \<Rightarrow> int option" where
  "one_only s = (if s = ''1'' then Some 1 else None)"

definition blank_row :: "int \<Rightarrow> 'n row" where
  "blank_row k = \<lparr>id_x = k, cells = (\<lambda>c. SNull)\<rparr>"

definition legacy_store_without_table :: "(string \<Rightarrow> int option) \<Rightarrow> int legacy_d1" where
  "legacy_store_without_table coercion =
     \<lparr>legacy_engine = engine_with coercion, contacts = None, clock = 0\<rparr>"

definition item_context_for ::
  "string \<Rightarrow> string \<Rightarrow> string option \<Rightarrow> 'n json option \<Rightarrow> 'n d1 \<Rightarrow> string \<Rightarrow> 'n item_context" where
  "item_context_for m name contentType parsed DB ident =
     \<lparr>ctx_request = request_for m name contentType parsed, ctx_DB = Some DB, ctx_id = Some ident\<rparr>"

section \<open>Properties of the validator\<close>

















lemma contacts_valid: "isValidTableName ''contacts''"
  by (simp add: isValidTableName_def table_name_pattern_def in_class_def first_class_def
      rest_class_def js_length_def utf16_units_def)


section \<open>Properties of the row codec\<close>

lemma colNames: "map colName [Suc 0..<21] = text_columns"
  by code_simp

lemma toString_digits: "c \<in> set (toString n) \<Longrightarrow> c \<in> set ''0123456789''"
proof (induction n rule: toString.induct)
  case (1 i)
  have d: "digit_char k \<in> set ''0123456789''" if "k < 10" for k
    unfolding digit_char_def using that by (intro nth_mem) simp
  show ?case
  proof (cases "i < 10")
    case True
    with 1(2) d [of i] show ?thesis by (subst (asm) toString.simps) simp
  next
    case False
    with 1(2) have "c \<in> set (toString (i div 10)) \<or> c = digit_char (i mod 10)"
      by (subst (asm) toString.simps) auto
    with 1(1) False d [of "i mod 10"] show ?thesis by auto
  qed
qed

lemma text_column_not_index:
  assumes "c \<in> set text_columns"
  shows "c \<noteq> toString n" and "c \<noteq> ''length''"
proof -
  from assms have x: "CHR ''x'' \<in> set c" by (auto simp: text_columns_def)
  show "c \<noteq> toString n"
  proof
    assume "c = toString n"
    with x have "CHR ''x'' \<in> set ''0123456789''" by (auto dest: toString_digits)
    then show False by simp
  qed
  from assms show "c \<noteq> ''length''" by (auto simp: text_columns_def)
qed

lemma hasOwnProperty_callable: "callable data \<Longrightarrow> hasOwnProperty data k = Inr (own data k)"
  by (auto simp: callable_def own_def hasOwnProperty_def split: json.splits)

lemma hasOwnProperty_not_callable: "\<not> callable data \<Longrightarrow> hasOwnProperty data k = Inl TypeError"
  by (auto simp: callable_def hasOwnProperty_def split: json.splits)

lemma encode_from_callable:
  "callable data \<Longrightarrow> i \<le> 21 \<Longrightarrow>
   encode_from i data columns vals =
     Inr (columns @ filter (own data) (map colName [i..<21]),
          vals @ map (property data) (filter (own data) (map colName [i..<21])))"
proof (induction i data columns vals rule: encode_from.induct)
  case (1 i requestData columns vals)
  show ?case
  proof (cases "i \<le> 20")
    case True
    then have upt: "[i..<21] = i # [i + 1..<21]" by (simp add: upt_rec)
    from True 1 show ?thesis
      by (subst encode_from.simps) (simp add: hasOwnProperty_callable upt)
  next
    case False
    with 1 have "i = 21" by simp
    then show ?thesis by (subst encode_from.simps) simp
  qed
qed

lemma encode_callable:
  "callable data \<Longrightarrow>
   encode data = Inr (filter (own data) text_columns,
                      map (property data) (filter (own data) text_columns))"
  using encode_from_callable [of data 1 "[]" "[]"] by (simp add: encode_def colNames)

lemma encode_not_callable: "\<not> callable data \<Longrightarrow> encode data = Inl TypeError"
  unfolding encode_def by (subst encode_from.simps) (simp add: hasOwnProperty_not_callable)

lemma own_object:
  "''hasOwnProperty'' \<notin> set (map fst kvs) \<Longrightarrow> own (JObj kvs) k \<longleftrightarrow> k \<in> set (map fst kvs)"
  by (simp add: own_def hasOwnProperty_def)

lemma own_text_column:
  assumes "c \<in> set text_columns"
  shows "own data c \<longleftrightarrow>
    (\<exists>kvs. data = JObj kvs \<and> ''hasOwnProperty'' \<notin> set (map fst kvs) \<and> c \<in> set (map fst kvs))"
  using text_column_not_index [OF assms]
  by (cases data) (auto simp: own_def hasOwnProperty_def)

section \<open>Properties of provisioning\<close>

lemma engine_added [simp]: "engine (added DB t) = engine DB"
  by (simp add: added_def)

lemma catalogued_added [simp]:
  "catalogued (added DB t) t = Some \<lparr>declared = t, content = Generic empty_table\<rparr>"
  by (simp add: added_def catalogued_def)

lemma with_sequence_table_keeps:
  "catalog k = Some e \<Longrightarrow> with_sequence_table catalog k = Some e"
  by (auto simp: with_sequence_table_def split: option.splits)

lemma with_sequence_table_other:
  "with_sequence_table catalog k = Some e \<Longrightarrow> catalog k = Some e \<or> content e = Other"
  by (auto simp: with_sequence_table_def sequence_table_def split: option.splits if_splits)

lemma added_keeps:
  "tables DB k = Some e \<Longrightarrow> catalogued DB t = None \<Longrightarrow> tables (added DB t) k = Some e"
  by (auto simp: added_def catalogued_def with_sequence_table_keeps)

lemma generic_table_added:
  "catalogued DB t = None \<Longrightarrow>
   generic_table (added DB t) t' =
     (if fold_case t' = fold_case t then Some empty_table else generic_table DB t')"
  by (auto simp: generic_table_def catalogued_def added_def with_sequence_table_def
      sequence_table_def split: option.splits)

lemma row_count_added: "catalogued DB t = None \<Longrightarrow> row_count (added DB t) t' = row_count DB t'"
  by (simp add: row_count_def generic_table_added empty_table_def)
    (simp add: generic_table_def catalogued_def)

lemma create_table_admitted:
  "admits (engine DB) t \<Longrightarrow>
   create_table DB t = (Inr (), case catalogued DB t of None \<Rightarrow> added DB t | Some e \<Rightarrow> DB)"
  by (simp add: create_table_def admits_def split: option.splits)

lemma create_table_refused:
  "\<not> admits (engine DB) t \<Longrightarrow> \<exists>e. create_table DB t = (Inl e, DB)"
  by (auto simp: create_table_def admits_def split: option.splits)

lemma sqlite_master_first_catalogued:
  "sqlite_master_first DB t \<Longrightarrow> \<exists>e. catalogued DB t = Some e \<and> declared e = t"
  by (simp add: sqlite_master_first_def split: option.splits)

lemma ensureTable_admitted:
  "admits (engine DB) t \<Longrightarrow>
   ensureTable DB t = (Inr (), case catalogued DB t of None \<Rightarrow> added DB t | Some e \<Rightarrow> DB)"
  by (auto simp: ensureTable_def createTableIfNotExists_def create_table_admitted
      dest: sqlite_master_first_catalogued)

lemma ensureTable_absent:
  "admits (engine DB) t \<Longrightarrow> catalogued DB t = None \<Longrightarrow> ensureTable DB t = (Inr (), added DB t)"
  by (simp add: ensureTable_admitted)

lemma ensureTable_present:
  "admits (engine DB) t \<Longrightarrow> catalogued DB t = Some e \<Longrightarrow> ensureTable DB t = (Inr (), DB)"
  by (simp add: ensureTable_admitted)

lemma ensureTable_denied:
  "denied (engine DB) t = Some e \<Longrightarrow> catalogued DB t = None \<Longrightarrow> ensureTable DB t = (Inl e, DB)"
  by (simp add: ensureTable_def sqlite_master_first_def createTableIfNotExists_def create_table_def)

text \<open>
  What the provisioning block can do: it fails and leaves the datastore as it is, or it
  succeeds and leaves the datastore as it is, or it succeeds and adds the table, which no
  name stood for before.
\<close>

lemma ensureTable_outcomes:
  "(\<exists>e. ensureTable DB t = (Inl e, DB)) \<or> ensureTable DB t = (Inr (), DB) \<or>
   (ensureTable DB t = (Inr (), added DB t) \<and> catalogued DB t = None)"
proof (cases "admits (engine DB) t")
  case True
  then show ?thesis by (cases "catalogued DB t") (simp_all add: ensureTable_admitted)
next
  case False
  from create_table_refused [OF this] show ?thesis
    by (auto simp: ensureTable_def createTableIfNotExists_def)
qed

lemma engine_ensureTable [simp]: "engine (snd (ensureTable DB t)) = engine DB"
  using ensureTable_outcomes [of DB t] by auto

lemma ensureTable_keeps:
  "tables DB k = Some e \<Longrightarrow> tables (snd (ensureTable DB t)) k = Some e"
  using ensureTable_outcomes [of DB t] by (auto simp: added_keeps)

lemma row_count_ensureTable: "row_count (snd (ensureTable DB t)) t' = row_count DB t'"
  using ensureTable_outcomes [of DB t] by (auto simp: row_count_added)

lemma fold_case_contacts: "fold_case ''contacts'' = ''contacts''"
  by (simp add: fold_case_def to_lower_def)

lemma fold_case_select: "fold_case ''select'' = ''select''"
  by (simp add: fold_case_def to_lower_def)

lemma contacts_admitted: "admits (engine_with coercion) ''contacts''"
  by (simp add: admits_def engine_with_def refused_word_def internal_name_def fold_case_contacts)

lemma select_denied: "denied (engine_with coercion) ''select'' = Some SqlSyntax"
  by (simp add: engine_with_def refused_word_def fold_case_select)

lemma select_valid: "isValidTableName ''select''"
  by (simp add: isValidTableName_def table_name_pattern_def in_class_def first_class_def
      rest_class_def js_length_def utf16_units_def)

lemma store_simps [simp]:
  "tables (store_without_tables co) k = None"
  "catalogued (store_without_tables co) name = None"
  "engine (store_without_tables co) = engine_with co"
  "catalogued (store_with_table co t tb) t = Some \<lparr>declared = t, content = Generic tb\<rparr>"
  "engine (store_with_table co t tb) = engine_with co"
  by (simp_all add: store_without_tables_def store_with_table_def catalogued_def)

lemma coerce_id_engine_with [simp]: "coerce_id (engine_with co) = co"
  by (simp add: engine_with_def)




section \<open>Properties of the collection endpoint\<close>

lemma recognized_callable:
  "callable data \<Longrightarrow> filter (own data) text_columns = recognized_fields data"
proof -
  assume c: "callable data"
  have "own data k \<longleftrightarrow> (case data of JObj kvs \<Rightarrow> k \<in> set (map fst kvs) | _ \<Rightarrow> False)"
    if "k \<in> set text_columns" for k
    using c own_text_column [OF that, of data] by (cases data) (auto simp: callable_def)
  then have "filter (own data) text_columns =
      filter (\<lambda>k. case data of JObj kvs \<Rightarrow> k \<in> set (map fst kvs) | _ \<Rightarrow> False) text_columns"
    by (intro filter_cong) auto
  also have "\<dots> = recognized_fields data"
    by (cases data) (simp_all add: recognized_fields_def)
  finally show ?thesis .
qed

lemma encode_recognized:
  "callable data \<Longrightarrow>
   encode data = Inr (recognized_fields data, map (property data) (recognized_fields data))"
  by (simp add: encode_callable recognized_callable)

lemma createContact_unparseable:
  "json_body request = None \<Longrightarrow>
   createContact request DB t = (Inl (Error ''Invalid JSON data''), DB)"
  by (simp add: createContact_def)

lemma createContact_no_fields:
  assumes "json_body request = Some data" and "recognized_fields data = []"
  shows "\<exists>err. createContact request DB t = (Inl err, snd (ensureTable DB t)) \<and>
    (callable data \<and> fst (ensureTable DB t) = Inr () \<longrightarrow>
       err = save_failed t (Error ''At least one field (x_01 to x_20) is required''))"
proof -
  obtain outcome DB1 where e: "ensureTable DB t = (outcome, DB1)"
    by (cases "ensureTable DB t")
  show ?thesis
  proof (cases outcome)
    case (Inl err)
    with assms e show ?thesis by (simp add: createContact_def)
  next
    case (Inr u)
    show ?thesis
    proof (cases "callable data")
      case True
      with assms e Inr show ?thesis by (simp add: createContact_def encode_recognized)
    next
      case False
      with assms e Inr show ?thesis by (simp add: createContact_def encode_not_callable)
    qed
  qed
qed

lemma onRequest_post:
  assumes "http_method request = ''POST''" and "isValidTableName (tableName_of request)"
  shows "onRequest request DB =
    (case createContact request DB (tableName_of request) of
       (Inl error, DB') \<Rightarrow> (\<lparr>status = 500, body = ErrorBody error\<rparr>, DB')
     | (Inr response, DB') \<Rightarrow> (response, DB'))"
  using assms by (simp add: onRequest_def)

text \<open>
  C2, as amended. For every POST to the auto-create collection endpoint with a valid
  table name: when the body is not parseable JSON the request fails with the error
  \<open>Invalid JSON data\<close> and the datastore is untouched; when the body parses and has
  none of the recognized fields the request fails, and the error is that of the empty
  field set, inside the save-failure message, when the engine admits the table name and
  \<open>hasOwnProperty\<close> can be called on the body. In both cases the status is 500
  (\<open>createContact\<close> raises and \<open>onRequest\<close> answers a raised error with 500), and no
  row is inserted: every table that existed is as it was, and every table has as many
  rows as before.
\<close>

theorem post_without_fields_rejected:
  assumes "http_method request = ''POST''" and "isValidTableName (tableName_of request)"
  shows
    "(json_body request = None \<longrightarrow>
        onRequest request DB =
          (\<lparr>status = 500, body = ErrorBody (Error ''Invalid JSON data'')\<rparr>, DB)) \<and>
     (\<forall>data. json_body request = Some data \<and> recognized_fields data = [] \<longrightarrow>
        status (fst (onRequest request DB)) = 500 \<and>
        (callable data \<and> admits (engine DB) (tableName_of request) \<longrightarrow>
           body (fst (onRequest request DB)) =
             ErrorBody (save_failed (tableName_of request)
                          (Error ''At least one field (x_01 to x_20) is required''))) \<and>
        (\<forall>k e. tables DB k = Some e \<longrightarrow> tables (snd (onRequest request DB)) k = Some e) \<and>
        (\<forall>t. row_count (snd (onRequest request DB)) t = row_count DB t))"
proof (intro conjI impI allI)
  assume "json_body request = None"
  then show "onRequest request DB =
      (\<lparr>status = 500, body = ErrorBody (Error ''Invalid JSON data'')\<rparr>, DB)"
    by (simp add: onRequest_post [OF assms] createContact_unparseable)
next
  fix data
  assume a: "json_body request = Some data \<and> recognized_fields data = []"
  then have "json_body request = Some data" and "recognized_fields data = []" by simp_all
  from createContact_no_fields [OF this, of DB "tableName_of request"]
  obtain err where
    c: "createContact request DB (tableName_of request) =
          (Inl err, snd (ensureTable DB (tableName_of request)))"
    and err: "callable data \<and> fst (ensureTable DB (tableName_of request)) = Inr () \<longrightarrow>
          err = save_failed (tableName_of request)
                  (Error ''At least one field (x_01 to x_20) is required'')"
    by blast
  have r: "onRequest request DB =
      (\<lparr>status = 500, body = ErrorBody err\<rparr>, snd (ensureTable DB (tableName_of request)))"
    by (simp add: onRequest_post [OF assms] c)
  show "status (fst (onRequest request DB)) = 500" by (simp add: r)
  show "tables (snd (onRequest request DB)) k = Some e" if "tables DB k = Some e" for k e
    using that by (simp add: r ensureTable_keeps)
  show "row_count (snd (onRequest request DB)) t = row_count DB t" for t
    by (simp add: r row_count_ensureTable)
  show "body (fst (onRequest request DB)) =
      ErrorBody (save_failed (tableName_of request)
                   (Error ''At least one field (x_01 to x_20) is required''))"
    if "callable data \<and> admits (engine DB) (tableName_of request)"
  proof -
    from that have "fst (ensureTable DB (tableName_of request)) = Inr ()"
      by (simp add: ensureTable_admitted)
    with that err show ?thesis by (simp add: r)
  qed
qed

lemma tableName_of_request_for [simp]:
  "tableName_of (request_for m (c # cs) ct b) = c # cs"
  by (simp add: tableName_of_def request_for_def)

lemma request_for_simps [simp]:
  "http_method (request_for m name ct b) = m"
  "content_type (request_for m name ct b) = ct"
  "json_body (request_for m name ct b) = b"
  by (simp_all add: request_for_def)

theorem post_without_fields_rejected_witness:
  "http_method (request_for ''POST'' ''contacts'' None (None :: int json option)) = ''POST'' \<and>
   isValidTableName (tableName_of (request_for ''POST'' ''contacts'' None (None :: int json option))) \<and>
   onRequest (request_for ''POST'' ''contacts'' None None) (store_without_tables one_only) =
     (\<lparr>status = 500, body = ErrorBody (Error ''Invalid JSON data'')\<rparr>,
      store_without_tables one_only) \<and>
   recognized_fields (JObj [(''note'', JStr ''hi'') :: string \<times> int json]) = [] \<and>
   callable (JObj [(''note'', JStr ''hi'') :: string \<times> int json]) \<and>
   admits (engine (store_without_tables one_only)) ''contacts'' \<and>
   fst (onRequest
       (request_for ''POST'' ''contacts'' None (Some (JObj [(''note'', JStr ''hi'')])))
       (store_without_tables one_only)) =
     \<lparr>status = 500,
      body = ErrorBody (save_failed ''contacts''
               (Error ''At least one field (x_01 to x_20) is required''))\<rparr> \<and>
   row_count (snd (onRequest
       (request_for ''POST'' ''contacts'' None (Some (JObj [(''note'', JStr ''hi'')])))
       (store_without_tables one_only))) ''contacts'' = 0"
proof -
  let ?none = "request_for ''POST'' ''contacts'' None (None :: int json option)"
  let ?data = "JObj [(''note'', JStr ''hi'') :: string \<times> int json]"
  let ?some = "request_for ''POST'' ''contacts'' None (Some ?data)"
  let ?DB = "store_without_tables one_only"
  have m: "http_method ?none = ''POST''" "http_method ?some = ''POST''" by simp_all
  have v: "isValidTableName (tableName_of ?none)" "isValidTableName (tableName_of ?some)"
    by (simp_all add: contacts_valid)
  have r: "recognized_fields ?data = []" by (simp add: recognized_fields_def text_columns_def)
  have c: "callable ?data" by (simp add: callable_def)
  have ad: "admits (engine ?DB) ''contacts''" by (simp add: contacts_admitted)
  have z: "row_count ?DB ''contacts'' = 0" by (simp add: row_count_def generic_table_def)
  from post_without_fields_rejected [OF m(1) v(1), of ?DB]
  have a: "onRequest ?none ?DB =
      (\<lparr>status = 500, body = ErrorBody (Error ''Invalid JSON data'')\<rparr>, ?DB)" by simp
  have j: "json_body ?some = Some ?data \<and> recognized_fields ?data = []" using r by simp
  have ca: "callable ?data \<and> admits (engine ?DB) (tableName_of ?some)" using c ad by simp
  note inst = post_without_fields_rejected [OF m(2) v(2), of ?DB]
  from inst j have b1: "status (fst (onRequest ?some ?DB)) = 500" by blast
  from inst j ca have b2: "body (fst (onRequest ?some ?DB)) =
      ErrorBody (save_failed (tableName_of ?some)
                   (Error ''At least one field (x_01 to x_20) is required''))" by blast
  from inst j have b3: "row_count (snd (onRequest ?some ?DB)) ''contacts'' = row_count ?DB ''contacts''"
    by blast
  from b1 b2 have b: "fst (onRequest ?some ?DB) =
      \<lparr>status = 500,
       body = ErrorBody (save_failed ''contacts''
                (Error ''At least one field (x_01 to x_20) is required''))\<rparr>"
    by (cases "fst (onRequest ?some ?DB)") simp
  from m v a r c ad b b3 z show ?thesis by simp
qed

text \<open>The specification gives status 400 here; a POST whose body does not parse is
  answered with 500.\<close>

theorem post_unparseable_answered_500:
  "http_method (request_for ''POST'' ''contacts'' None (None :: int json option)) = ''POST'' \<and>
   isValidTableName (tableName_of (request_for ''POST'' ''contacts'' None (None :: int json option))) \<and>
   json_body (request_for ''POST'' ''contacts'' None (None :: int json option)) = None \<and>
   status (fst (onRequest (request_for ''POST'' ''contacts'' None (None :: int json option))
                  (store_without_tables one_only))) = 500 \<and>
   status (fst (onRequest (request_for ''POST'' ''contacts'' None (None :: int json option))
                  (store_without_tables one_only))) \<noteq> 400"
  by (simp add: onRequest_def createContact_def contacts_valid)

subsection \<open>The row codec at the endpoint\<close>

lemma recognized_fields_ascending:
  "\<exists>ns. recognized_fields data = map colName ns \<and> sorted ns \<and> distinct ns \<and>
     set ns \<subseteq> {1..20}"
proof -
  let ?P = "\<lambda>c. case data of JObj kvs \<Rightarrow> c \<in> set (map fst kvs) | _ \<Rightarrow> False"
  let ?ns = "filter (?P \<circ> colName) [Suc 0..<21]"
  have "recognized_fields data = filter ?P text_columns"
    by (cases data) (simp_all add: recognized_fields_def)
  also have "\<dots> = map colName ?ns"
    by (simp only: colNames [symmetric] filter_map)
  finally have "recognized_fields data = map colName ?ns" .
  moreover have "sorted ?ns" using sorted_filter [of id "[Suc 0..<21]"] by simp
  moreover have "distinct ?ns" by simp
  moreover have "set ?ns \<subseteq> {1..20}" by auto
  ultimately show ?thesis by blast
qed

lemma encode_order_independent:
  assumes "set (map fst kvs) = set (map fst kvs')" and "map_of kvs = map_of kvs'"
  shows "encode (JObj kvs) = encode (JObj kvs')"
proof (cases "callable (JObj kvs)")
  case True
  with assms(1) have c: "callable (JObj kvs')" by (simp add: callable_def)
  from assms(1) have "recognized_fields (JObj kvs) = recognized_fields (JObj kvs')"
    by (simp add: recognized_fields_def)
  with assms(2) show ?thesis
    by (simp add: encode_recognized [OF True] encode_recognized [OF c])
next
  case False
  with assms(1) have "\<not> callable (JObj kvs')" by (simp add: callable_def)
  with False show ?thesis by (simp add: encode_not_callable)
qed

text \<open>
  C4. The encode step is meant to select the recognized fields the payload has, in
  ascending order of the field index whatever the order of the payload's entries, with
  their values as they are, and to ignore every other key. For a payload on which
  \<open>hasOwnProperty\<close> can be called it does so (\<open>encode_recognized\<close>,
  \<open>recognized_fields_ascending\<close>, \<open>encode_order_independent\<close>). A payload with an
  own entry named \<open>hasOwnProperty\<close> is not ignored: the loop calls the entry, the
  encode step raises a TypeError although the payload has the recognized field
  \<open>x_01\<close>, and the create request is answered with 500.
\<close>

theorem encode_hasOwnProperty_entry:
  "encode (JObj [(''hasOwnProperty'', JBool True), (''x_01'', JStr ''a'')]) = Inl TypeError \<and>
   onRequest
       (request_for ''POST'' ''contacts'' None
          (Some (JObj [(''hasOwnProperty'', JBool True), (''x_01'', JStr ''a'')])))
       (store_without_tables one_only) =
     (\<lparr>status = 500,
       body = ErrorBody (ErrorFrom (''Failed to save record to table '' @ quoted ''contacts'' @ '': '')
                TypeError)\<rparr>,
      snd (ensureTable (store_without_tables one_only) ''contacts''))"
proof -
  let ?data = "JObj [(''hasOwnProperty'', JBool True), (''x_01'', JStr ''a'')]"
  have e: "encode ?data = Inl TypeError"
    by (rule encode_not_callable) (simp add: callable_def)
  have p: "ensureTable (store_without_tables one_only) ''contacts'' =
      (Inr (), added (store_without_tables one_only) ''contacts'')"
    by (simp add: ensureTable_admitted contacts_admitted)
  have c: "createContact
      (request_for ''POST'' ''contacts'' None (Some ?data)) (store_without_tables one_only)
      ''contacts'' =
    (Inl (save_failed ''contacts'' TypeError),
     snd (ensureTable (store_without_tables one_only) ''contacts''))"
    by (simp add: createContact_def p e)
  show ?thesis
    by (simp add: e onRequest_post contacts_valid c) (simp add: save_failed_def)
qed

section \<open>Properties of the item endpoint\<close>

lemma item_onRequest_dispatch:
  assumes "ctx_DB ctx = Some DB" and "isValidTableName (tableName_of (ctx_request ctx))"
    and "ctx_id ctx = Some ident" and "ident \<noteq> []"
    and "http_method (ctx_request ctx) \<noteq> ''OPTIONS''"
  shows "item_onRequest ctx =
    (if http_method (ctx_request ctx) = ''GET''
       then with_binding (handleGetSingle DB (tableName_of (ctx_request ctx)) ident)
     else if http_method (ctx_request ctx) = ''PUT''
       then with_binding (handleUpdate (ctx_request ctx) DB (tableName_of (ctx_request ctx)) ident)
     else if http_method (ctx_request ctx) = ''DELETE''
       then with_binding (handleDelete DB (tableName_of (ctx_request ctx)) ident)
     else (method_not_allowed (http_method (ctx_request ctx)), Some DB))"
  using assms by (cases ident) (simp_all add: item_onRequest_def Let_def)

lemma is_json_content_type_iff:
  "is_json_content_type x \<longleftrightarrow> (\<exists>ct. x = Some ct \<and> js_includes ct ''application/json'')"
  by (cases x) (auto simp: is_json_content_type_def)

lemma with_column_generic:
  "denied (engine DB) t = None \<Longrightarrow> catalogued DB t = Some e \<Longrightarrow> content e = Generic tb \<Longrightarrow>
   with_column DB t c = Inr (e, tb)"
  by (simp add: with_column_def named_table_def)

lemma with_column_other:
  "denied (engine DB) t = None \<Longrightarrow> catalogued DB t = Some e \<Longrightarrow> content e = Other \<Longrightarrow>
   with_column DB t c = Inl (NoSuchColumn c)"
  by (simp add: with_column_def named_table_def)

lemma with_column_denied: "denied (engine DB) t = Some err \<Longrightarrow> with_column DB t c = Inl err"
  by (simp add: with_column_def named_table_def)

lemma with_column_added:
  "denied (engine DB) t = None \<Longrightarrow>
   with_column (added DB t) t c = Inr (\<lparr>declared = t, content = Generic empty_table\<rparr>, empty_table)"
  by (simp add: with_column_generic)

lemma catalogued_with_table [simp]:
  "catalogued (with_table DB t e tb) t = Some (e\<lparr>content := Generic tb\<rparr>)"
  by (simp add: with_table_def catalogued_def)

lemma engine_with_table [simp]: "engine (with_table DB t e tb) = engine DB"
  by (simp add: with_table_def)

lemma entry_generic: "content e = Generic tb \<Longrightarrow> e\<lparr>content := Generic tb\<rparr> = e"
  by simp

lemma handleUpdate_media_type:
  assumes "\<not> is_json_content_type (content_type request)"
  shows "\<exists>err. handleUpdate request DB t ident =
      (failed_in ''Update failed in table '' t err, snd (ensureTable DB t)) \<and>
    (fst (ensureTable DB t) = Inr () \<longrightarrow> err = Error ''Content-Type must be application/json'')"
proof -
  obtain outcome DB1 where e: "ensureTable DB t = (outcome, DB1)"
    by (cases "ensureTable DB t")
  with assms show ?thesis by (cases outcome) (auto simp: handleUpdate_def)
qed

text \<open>
  C3, as amended. For every PUT to the generic item endpoint with a bound datastore, a
  valid table name and a present id: when the \<open>Content-Type\<close> header is absent or
  does not include \<open>application/json\<close>, the request fails with status 400 (the
  \<open>catch\<close> of \<open>handleUpdate\<close> answers every error with 400), and the error is
  \<open>Content-Type must be application/json\<close> when the engine admits the table name. No
  row is modified: every table that existed is as it was, and every table has as many
  rows as before.
\<close>

theorem put_without_json_content_type:
  assumes "http_method (ctx_request ctx) = ''PUT''" and "ctx_DB ctx = Some DB"
    and "isValidTableName (tableName_of (ctx_request ctx))"
    and "ctx_id ctx = Some ident" and "ident \<noteq> []"
    and "content_type (ctx_request ctx) = None \<or>
         (\<exists>ct. content_type (ctx_request ctx) = Some ct \<and> \<not> js_includes ct ''application/json'')"
  shows "status (fst (item_onRequest ctx)) = 400 \<and>
    (admits (engine DB) (tableName_of (ctx_request ctx)) \<longrightarrow>
       body (fst (item_onRequest ctx)) =
         ErrorBody (ErrorFrom (''Update failed in table '' @ quoted (tableName_of (ctx_request ctx)) @ '': '')
           (Error ''Content-Type must be application/json''))) \<and>
    (\<exists>DB'. snd (item_onRequest ctx) = Some DB' \<and>
       (\<forall>k e. tables DB k = Some e \<longrightarrow> tables DB' k = Some e) \<and>
       (\<forall>name. row_count DB' name = row_count DB name))"
proof -
  let ?t = "tableName_of (ctx_request ctx)"
  from assms(6) have "\<not> is_json_content_type (content_type (ctx_request ctx))"
    by (auto simp: is_json_content_type_iff)
  from handleUpdate_media_type [OF this, of DB ?t ident]
  obtain err where h: "handleUpdate (ctx_request ctx) DB ?t ident =
      (failed_in ''Update failed in table '' ?t err, snd (ensureTable DB ?t))"
    and err: "fst (ensureTable DB ?t) = Inr () \<longrightarrow> err = Error ''Content-Type must be application/json''"
    by blast
  have r: "item_onRequest ctx =
      (failed_in ''Update failed in table '' ?t err, Some (snd (ensureTable DB ?t)))"
    using assms(1) by (simp add: item_onRequest_dispatch [OF assms(2-5)] h with_binding_def)
  have "status (fst (item_onRequest ctx)) = 400" by (simp add: r failed_in_def)
  moreover have "body (fst (item_onRequest ctx)) =
      ErrorBody (ErrorFrom (''Update failed in table '' @ quoted ?t @ '': '')
        (Error ''Content-Type must be application/json''))"
    if "admits (engine DB) ?t"
  proof -
    from that have "fst (ensureTable DB ?t) = Inr ()" by (simp add: ensureTable_admitted)
    with err show ?thesis by (simp add: r failed_in_def)
  qed
  moreover have "\<exists>DB'. snd (item_onRequest ctx) = Some DB' \<and>
       (\<forall>k e. tables DB k = Some e \<longrightarrow> tables DB' k = Some e) \<and>
       (\<forall>name. row_count DB' name = row_count DB name)"
    by (simp add: r ensureTable_keeps row_count_ensureTable)
  ultimately show ?thesis by blast
qed

lemma item_context_for_simps [simp]:
  "ctx_request (item_context_for m name ct b DB ident) = request_for m name ct b"
  "ctx_DB (item_context_for m name ct b DB ident) = Some DB"
  "ctx_id (item_context_for m name ct b DB ident) = Some ident"
  by (simp_all add: item_context_for_def)

theorem put_without_json_content_type_witness:
  "http_method (ctx_request (item_context_for ''PUT'' ''contacts'' None (None :: int json option)
      (store_without_tables one_only) ''1'')) = ''PUT'' \<and>
   isValidTableName ''contacts'' \<and>
   content_type (request_for ''PUT'' ''contacts'' None (None :: int json option)) = None \<and>
   admits (engine (store_without_tables one_only)) ''contacts'' \<and>
   fst (item_onRequest (item_context_for ''PUT'' ''contacts'' None None
      (store_without_tables one_only) ''1'')) =
     \<lparr>status = 400,
      body = ErrorBody (ErrorFrom (''Update failed in table '' @ quoted ''contacts'' @ '': '')
               (Error ''Content-Type must be application/json''))\<rparr>"
proof -
  let ?DB = "store_without_tables one_only"
  let ?ctx = "item_context_for ''PUT'' ''contacts'' None (None :: int json option) ?DB ''1''"
  have m: "http_method (ctx_request ?ctx) = ''PUT''" by simp
  have d: "ctx_DB ?ctx = Some ?DB" by simp
  have v: "isValidTableName (tableName_of (ctx_request ?ctx))" by (simp add: contacts_valid)
  have i: "ctx_id ?ctx = Some ''1''" "''1'' \<noteq> []" by simp_all
  have c: "content_type (ctx_request ?ctx) = None \<or>
      (\<exists>ct. content_type (ctx_request ?ctx) = Some ct \<and> \<not> js_includes ct ''application/json'')"
    by simp
  have ad: "admits (engine ?DB) (tableName_of (ctx_request ?ctx))" by (simp add: contacts_admitted)
  note inst = put_without_json_content_type [OF m d v i c]
  from inst have s: "status (fst (item_onRequest ?ctx)) = 400" by blast
  from inst ad have b: "body (fst (item_onRequest ?ctx)) =
      ErrorBody (ErrorFrom (''Update failed in table '' @ quoted (tableName_of (ctx_request ?ctx)) @ '': '')
        (Error ''Content-Type must be application/json''))" by blast
  from s b have "fst (item_onRequest ?ctx) =
      \<lparr>status = 400,
       body = ErrorBody (ErrorFrom (''Update failed in table '' @ quoted ''contacts'' @ '': '')
                (Error ''Content-Type must be application/json''))\<rparr>"
    by (cases "fst (item_onRequest ?ctx)") simp
  with m contacts_valid ad show ?thesis by simp
qed

text \<open>The specification gives status 415 here; a PUT without the header is answered with
  400.\<close>

theorem put_without_content_type_answered_400:
  "http_method (ctx_request (item_context_for ''PUT'' ''contacts'' None (None :: int json option)
      (store_without_tables one_only) ''1'')) = ''PUT'' \<and>
   isValidTableName ''contacts'' \<and>
   content_type (request_for ''PUT'' ''contacts'' None (None :: int json option)) = None \<and>
   status (fst (item_onRequest (item_context_for ''PUT'' ''contacts'' None (None :: int json option)
      (store_without_tables one_only) ''1''))) = 400 \<and>
   status (fst (item_onRequest (item_context_for ''PUT'' ''contacts'' None (None :: int json option)
      (store_without_tables one_only) ''1''))) \<noteq> 415"
  by (simp add: item_onRequest_def Let_def contacts_valid with_binding_def handleUpdate_def
      ensureTable_admitted contacts_admitted is_json_content_type_def failed_in_def)

lemma matches_id_engine: "engine DB' = engine DB \<Longrightarrow> matches_id DB' = matches_id DB"
  by (simp add: matches_id_def fun_eq_iff)

lemma select_where_id_generic:
  "denied (engine DB) t = None \<Longrightarrow> catalogued DB t = Some e \<Longrightarrow> content e = Generic tb \<Longrightarrow>
   select_where_id DB t selected ident =
     (case find (matches_id DB ident) (rows tb) of
        None \<Rightarrow> Inr None
      | Some r \<Rightarrow> Inr (Some (filter (\<lambda>(c, v). c \<in> set selected) (row_object r))))"
  by (simp add: select_where_id_def with_column_generic)

lemma select_where_id_added:
  "denied (engine DB) t = None \<Longrightarrow> select_where_id (added DB t) t selected ident = Inr None"
  by (simp add: select_where_id_def with_column_added empty_table_def)

lemma select_star: "filter (\<lambda>(c, v). c \<in> set all_columns) (row_object r) = row_object r"
  by (simp add: row_object_def all_columns_def filter_map comp_def)

lemma handleGetSingle_generic:
  assumes "admits (engine DB) t" and "catalogued DB t = Some e" and "content e = Generic tb"
  shows "handleGetSingle DB t ident =
     (case find (matches_id DB ident) (rows tb) of
        None \<Rightarrow> (record_not_found t, DB)
      | Some r \<Rightarrow> (\<lparr>status = 200, body = ItemBody t (row_object r)\<rparr>, DB))"
proof -
  from assms(1) have d: "denied (engine DB) t = None" by (simp add: admits_def)
  show ?thesis
    by (simp add: handleGetSingle_def ensureTable_present [OF assms(1,2)]
        select_where_id_generic [OF d assms(2,3)] select_star split: option.splits)
qed

lemma handleGetSingle_fresh:
  assumes "admits (engine DB) t" and "catalogued DB t = None"
  shows "handleGetSingle DB t ident = (record_not_found t, added DB t)"
proof -
  from assms(1) have d: "denied (engine DB) t = None" by (simp add: admits_def)
  show ?thesis
    by (simp add: handleGetSingle_def ensureTable_absent [OF assms] select_where_id_added [OF d])
qed

lemma find_unique: "filter P xs = [r] \<Longrightarrow> find P xs = Some r"
proof (induction xs)
  case Nil
  then show ?case by simp
next
  case (Cons a xs)
  then show ?case by (auto split: if_splits)
qed

lemma find_none: "(\<forall>r \<in> set xs. \<not> P r) \<Longrightarrow> find P xs = None"
  by (simp add: find_None_iff)

text \<open>
  C6, as amended. For every GET of the item endpoint of the generic variant, with a bound
  datastore, a present id and a valid table name that the engine admits: when the name
  stands for a generic table and no row has a key equal to the bound id, the answer is
  404 and the datastore is unchanged; when the name stands for no table, the empty
  generic table is added and the answer is 404; when the name stands for a generic
  table and exactly one row matches, the answer is 200 with that row.
\<close>

theorem get_single_outcomes:
  assumes "http_method (ctx_request ctx) = ''GET''" and "ctx_DB ctx = Some DB"
    and "isValidTableName (tableName_of (ctx_request ctx))"
    and "ctx_id ctx = Some ident" and "ident \<noteq> []"
    and "admits (engine DB) (tableName_of (ctx_request ctx))"
  shows
    "(\<forall>e tb. catalogued DB (tableName_of (ctx_request ctx)) = Some e \<and> content e = Generic tb \<and>
        (\<forall>r \<in> set (rows tb). coerce_id (engine DB) ident \<noteq> Some (id_x r)) \<longrightarrow>
        item_onRequest ctx =
          (\<lparr>status = 404,
            body = ErrorBody (Error (''Record not found in table '' @
                      quoted (tableName_of (ctx_request ctx))))\<rparr>, Some DB)) \<and>
     (catalogued DB (tableName_of (ctx_request ctx)) = None \<longrightarrow>
        item_onRequest ctx =
          (\<lparr>status = 404,
            body = ErrorBody (Error (''Record not found in table '' @
                      quoted (tableName_of (ctx_request ctx))))\<rparr>,
           Some (added DB (tableName_of (ctx_request ctx)))) \<and>
        generic_table (added DB (tableName_of (ctx_request ctx))) (tableName_of (ctx_request ctx)) =
          Some empty_table) \<and>
     (\<forall>e tb r. catalogued DB (tableName_of (ctx_request ctx)) = Some e \<and> content e = Generic tb \<and>
        filter (\<lambda>r. coerce_id (engine DB) ident = Some (id_x r)) (rows tb) = [r] \<longrightarrow>
        item_onRequest ctx =
          (\<lparr>status = 200, body = ItemBody (tableName_of (ctx_request ctx)) (row_object r)\<rparr>,
           Some DB))"
proof -
  let ?t = "tableName_of (ctx_request ctx)"
  have get: "item_onRequest ctx = with_binding (handleGetSingle DB ?t ident)"
    using assms(1) by (simp add: item_onRequest_dispatch [OF assms(2-5)])
  have m: "matches_id DB ident = (\<lambda>r. coerce_id (engine DB) ident = Some (id_x r))"
    by (simp add: matches_id_def fun_eq_iff)
  show ?thesis
  proof (intro conjI allI impI)
    fix e tb
    assume a: "catalogued DB ?t = Some e \<and> content e = Generic tb \<and>
        (\<forall>r \<in> set (rows tb). coerce_id (engine DB) ident \<noteq> Some (id_x r))"
    then have c: "catalogued DB ?t = Some e" and g: "content e = Generic tb" by simp_all
    from a have "find (matches_id DB ident) (rows tb) = None"
      by (intro find_none) (simp add: matches_id_def)
    then show "item_onRequest ctx =
        (\<lparr>status = 404,
          body = ErrorBody (Error (''Record not found in table '' @ quoted ?t))\<rparr>, Some DB)"
      by (simp add: get handleGetSingle_generic [OF assms(6) c g] with_binding_def
          record_not_found_def)
  next
    assume n: "catalogued DB ?t = None"
    then show "item_onRequest ctx =
        (\<lparr>status = 404,
          body = ErrorBody (Error (''Record not found in table '' @ quoted ?t))\<rparr>,
         Some (added DB ?t))"
      by (simp add: get handleGetSingle_fresh [OF assms(6)] with_binding_def record_not_found_def)
    from n show "generic_table (added DB ?t) ?t = Some empty_table"
      by (simp add: generic_table_added)
  next
    fix e tb r
    assume a: "catalogued DB ?t = Some e \<and> content e = Generic tb \<and>
        filter (\<lambda>r. coerce_id (engine DB) ident = Some (id_x r)) (rows tb) = [r]"
    then have c: "catalogued DB ?t = Some e" and g: "content e = Generic tb" by simp_all
    from a have "find (matches_id DB ident) (rows tb) = Some r"
      by (intro find_unique) (simp add: m)
    then show "item_onRequest ctx =
        (\<lparr>status = 200, body = ItemBody ?t (row_object r)\<rparr>, Some DB)"
      by (simp add: get handleGetSingle_generic [OF assms(6) c g] with_binding_def)
  qed
qed

theorem get_single_outcomes_witness:
  "isValidTableName ''contacts'' \<and>
   admits (engine_with one_only) ''contacts'' \<and>
   item_onRequest (item_context_for ''GET'' ''contacts'' None None
       (store_with_table one_only ''contacts'' \<lparr>rows = [blank_row 2], sequence = 2\<rparr>) ''1'') =
     (\<lparr>status = 404,
       body = ErrorBody (Error (''Record not found in table '' @ quoted ''contacts''))\<rparr>,
      Some (store_with_table one_only ''contacts'' \<lparr>rows = [blank_row 2], sequence = 2\<rparr>)) \<and>
   item_onRequest (item_context_for ''GET'' ''contacts'' None None
       (store_without_tables one_only) ''1'') =
     (\<lparr>status = 404,
       body = ErrorBody (Error (''Record not found in table '' @ quoted ''contacts''))\<rparr>,
      Some (added (store_without_tables one_only) ''contacts'')) \<and>
   item_onRequest (item_context_for ''GET'' ''contacts'' None None
       (store_with_table one_only ''contacts'' \<lparr>rows = [blank_row 1], sequence = 1\<rparr>) ''1'') =
     (\<lparr>status = 200, body = ItemBody ''contacts'' (row_object (blank_row 1))\<rparr>,
      Some (store_with_table one_only ''contacts'' \<lparr>rows = [blank_row 1], sequence = 1\<rparr>))"
proof -
  let ?two = "store_with_table one_only ''contacts'' \<lparr>rows = [blank_row 2], sequence = 2\<rparr>"
  let ?none = "store_without_tables one_only"
  let ?one = "store_with_table one_only ''contacts'' \<lparr>rows = [blank_row 1], sequence = 1\<rparr>"
  let ?ctx = "\<lambda>DB. item_context_for ''GET'' ''contacts'' None (None :: int json option) DB ''1''"
  have m: "http_method (ctx_request (?ctx DB)) = ''GET''" for DB by simp
  have d: "ctx_DB (?ctx DB) = Some DB" for DB by simp
  have v: "isValidTableName (tableName_of (ctx_request (?ctx DB)))" for DB
    by (simp add: contacts_valid)
  have i: "ctx_id (?ctx DB) = Some ''1''" "''1'' \<noteq> []" for DB by simp_all
  have ad: "admits (engine ?two) (tableName_of (ctx_request (?ctx ?two)))"
    "admits (engine ?none) (tableName_of (ctx_request (?ctx ?none)))"
    "admits (engine ?one) (tableName_of (ctx_request (?ctx ?one)))"
    by (simp_all add: contacts_admitted)
  have a: "catalogued ?two (tableName_of (ctx_request (?ctx ?two))) =
        Some \<lparr>declared = ''contacts'', content = Generic \<lparr>rows = [blank_row 2], sequence = 2\<rparr>\<rparr> \<and>
      content \<lparr>declared = ''contacts'', content = Generic \<lparr>rows = [blank_row 2 :: int row], sequence = 2\<rparr>\<rparr> =
        Generic \<lparr>rows = [blank_row 2], sequence = 2\<rparr> \<and>
      (\<forall>r \<in> set (rows \<lparr>rows = [blank_row 2 :: int row], sequence = 2\<rparr>).
          coerce_id (engine ?two) ''1'' \<noteq> Some (id_x r))"
    by (simp add: blank_row_def one_only_def)
  have n: "catalogued ?none (tableName_of (ctx_request (?ctx ?none))) = None" by simp
  have c: "catalogued ?one (tableName_of (ctx_request (?ctx ?one))) =
        Some \<lparr>declared = ''contacts'', content = Generic \<lparr>rows = [blank_row 1], sequence = 1\<rparr>\<rparr> \<and>
      content \<lparr>declared = ''contacts'', content = Generic \<lparr>rows = [blank_row 1 :: int row], sequence = 1\<rparr>\<rparr> =
        Generic \<lparr>rows = [blank_row 1], sequence = 1\<rparr> \<and>
      filter (\<lambda>r. coerce_id (engine ?one) ''1'' = Some (id_x r))
        (rows \<lparr>rows = [blank_row 1 :: int row], sequence = 1\<rparr>) = [blank_row 1]"
    by (simp add: blank_row_def one_only_def)
  from get_single_outcomes [OF m d v i ad(1)] a
  have r1: "item_onRequest (?ctx ?two) =
      (\<lparr>status = 404,
        body = ErrorBody (Error (''Record not found in table '' @
                  quoted (tableName_of (ctx_request (?ctx ?two)))))\<rparr>,
       Some ?two)"
    by blast
  from get_single_outcomes [OF m d v i ad(2)] n
  have r2: "item_onRequest (?ctx ?none) =
      (\<lparr>status = 404,
        body = ErrorBody (Error (''Record not found in table '' @
                  quoted (tableName_of (ctx_request (?ctx ?none)))))\<rparr>,
       Some (added ?none (tableName_of (ctx_request (?ctx ?none)))))"
    by blast
  from get_single_outcomes [OF m d v i ad(3)] c
  have r3: "item_onRequest (?ctx ?one) =
      (\<lparr>status = 200,
        body = ItemBody (tableName_of (ctx_request (?ctx ?one))) (row_object (blank_row 1))\<rparr>,
       Some ?one)"
    by blast
  from r1 r2 r3 contacts_valid contacts_admitted [of one_only] show ?thesis by simp
qed

text \<open>
  The specification has the table provisioned and 404 answered for every valid name that
  stands for no table. The name \<open>select\<close> is valid; the GET is answered with 400, and
  no table has been added.
\<close>

theorem get_single_at_select_answered_400:
  "isValidTableName ''select'' \<and>
   catalogued (store_without_tables one_only) ''select'' = None \<and>
   item_onRequest (item_context_for ''GET'' ''select'' None None
       (store_without_tables one_only) ''1'') =
     (\<lparr>status = 400,
       body = ErrorBody (ErrorFrom (''Get failed from table '' @ quoted ''select'' @ '': '')
                (D1Error SqlSyntax))\<rparr>,
      Some (store_without_tables one_only)) \<and>
   status (fst (item_onRequest (item_context_for ''GET'' ''select'' None None
       (store_without_tables one_only) ''1''))) \<noteq> 404"
proof -
  have e: "ensureTable (store_without_tables one_only) ''select'' =
      (Inl SqlSyntax, store_without_tables one_only)"
    by (simp add: ensureTable_denied select_denied)
  have "item_onRequest (item_context_for ''GET'' ''select'' None None
       (store_without_tables one_only) ''1'') =
     (\<lparr>status = 400,
       body = ErrorBody (ErrorFrom (''Get failed from table '' @ quoted ''select'' @ '': '')
                (D1Error SqlSyntax))\<rparr>,
      Some (store_without_tables one_only))"
    by (simp add: item_onRequest_def Let_def select_valid with_binding_def handleGetSingle_def e
        failed_in_def)
  then show ?thesis by (simp add: select_valid)
qed

subsection \<open>Provisioning comes first\<close>

lemma generic_table_with_table [simp]: "generic_table (with_table DB t e tb) t = Some tb"
  by (simp add: generic_table_def)

lemma update_set_state:
  "snd (update_set DB t columns vals ident) = DB \<or>
   (\<exists>e tb'. catalogued DB t = Some e \<and> snd (update_set DB t columns vals ident) = with_table DB t e tb')"
  by (auto simp: update_set_def with_column_def named_table_def
      split: sum.splits option.splits content.splits)

lemma delete_where_id_state:
  "snd (delete_where_id DB t ident) = DB \<or>
   (\<exists>e tb'. catalogued DB t = Some e \<and> snd (delete_where_id DB t ident) = with_table DB t e tb')"
  by (auto simp: delete_where_id_def with_column_def named_table_def
      split: sum.splits option.splits content.splits)

lemma insert_into_state:
  "snd (insert_into DB t columns vals) = DB \<or>
   (\<exists>e tb'. catalogued DB t = Some e \<and> snd (insert_into DB t columns vals) = with_table DB t e tb')"
  by (auto simp: insert_into_def with_column_def named_table_def Let_def
      split: sum.splits option.splits content.splits)

lemma handleUpdate_state:
  "snd (handleUpdate request DB t ident) = snd (ensureTable DB t) \<or>
   (\<exists>columns vals. snd (handleUpdate request DB t ident) =
      snd (update_set (snd (ensureTable DB t)) t columns vals ident))"
proof -
  obtain outcome DB1 where e: "ensureTable DB t = (outcome, DB1)"
    by (cases "ensureTable DB t")
  have "snd (case update_set DB1 t columns vals ident of
        (Inl e, DB2) \<Rightarrow> (failed_in ''Update failed in table '' t (D1Error e), DB2)
      | (Inr updateResult, DB2) \<Rightarrow>
          (\<lparr>status = 200,
            body = UpdatedBody t (js_member updateResult ''changes'') columns data\<rparr>, DB2)) =
      snd (update_set DB1 t columns vals ident)"
    for columns vals and data :: "'a json"
    by (cases "update_set DB1 t columns vals ident") (auto split: sum.splits)
  then show ?thesis
    by (cases outcome) (auto simp: handleUpdate_def e split: option.splits sum.splits)
qed

lemma handleDelete_state:
  "snd (handleDelete DB t ident) = snd (ensureTable DB t) \<or>
   snd (handleDelete DB t ident) = snd (delete_where_id (snd (ensureTable DB t)) t ident)"
proof -
  obtain outcome DB1 where e: "ensureTable DB t = (outcome, DB1)"
    by (cases "ensureTable DB t")
  have "snd (case delete_where_id DB1 t ident of
        (Inl e, DB2) \<Rightarrow> (failed_in ''Delete failed from table '' t (D1Error e), DB2)
      | (Inr deleteResult, DB2) \<Rightarrow>
          (\<lparr>status = 200,
            body = DeletedBody t (js_member deleteResult ''changes'') existsResult\<rparr>, DB2)) =
      snd (delete_where_id DB1 t ident)"
    for existsResult :: "'a row_object"
    by (cases "delete_where_id DB1 t ident") (auto split: sum.splits)
  then show ?thesis
    by (cases outcome) (auto simp: handleDelete_def e split: option.splits sum.splits)
qed

lemma handleGetSingle_state: "snd (handleGetSingle DB t ident) = snd (ensureTable DB t)"
proof -
  obtain outcome DB1 where e: "ensureTable DB t = (outcome, DB1)"
    by (cases "ensureTable DB t")
  then show ?thesis
    by (cases outcome) (auto simp: handleGetSingle_def split: option.splits sum.splits)
qed

text \<open>
  After the provisioning block has run with a name the engine admits, the name stands
  for a table, and the statements of a handler keep it that way; they keep a generic
  table generic.
\<close>

lemma ensureTable_catalogued:
  "admits (engine DB) t \<Longrightarrow> \<exists>e. catalogued (snd (ensureTable DB t)) t = Some e"
  by (cases "catalogued DB t") (simp_all add: ensureTable_admitted)

lemma ensureTable_generic:
  "admits (engine DB) t \<Longrightarrow> generic_table DB t = Some tb \<Longrightarrow>
   generic_table (snd (ensureTable DB t)) t = Some tb"
  by (cases "catalogued DB t") (simp_all add: ensureTable_admitted generic_table_def)

lemma item_handlers_keep:
  assumes "D = snd (ensureTable DB t) \<or>
      (\<exists>columns vals. D = snd (update_set (snd (ensureTable DB t)) t columns vals ident)) \<or>
      D = snd (delete_where_id (snd (ensureTable DB t)) t ident)"
    and "admits (engine DB) t"
  shows "\<exists>e. catalogued D t = Some e"
    and "generic_table DB t = Some tb \<Longrightarrow> \<exists>tb'. generic_table D t = Some tb'"
proof -
  let ?D1 = "snd (ensureTable DB t)"
  from ensureTable_catalogued [OF assms(2)] obtain e1 where e1: "catalogued ?D1 t = Some e1"
    by blast
  from assms(1) have d: "D = ?D1 \<or> (\<exists>e tb'. catalogued ?D1 t = Some e \<and> D = with_table ?D1 t e tb')"
    using update_set_state [of ?D1 t _ _ ident] delete_where_id_state [of ?D1 t ident]
    by metis
  with e1 show "\<exists>e. catalogued D t = Some e" by auto
  assume "generic_table DB t = Some tb"
  from ensureTable_generic [OF assms(2) this] have "generic_table ?D1 t = Some tb" .
  with d show "\<exists>tb'. generic_table D t = Some tb'" by auto
qed

lemma handleDelete_fresh:
  assumes "admits (engine DB) t" and "catalogued DB t = None"
  shows "handleDelete DB t ident = (record_not_found t, added DB t)"
proof -
  from assms(1) have d: "denied (engine DB) t = None" by (simp add: admits_def)
  show ?thesis
    by (simp add: handleDelete_def ensureTable_absent [OF assms] select_where_id_added [OF d])
qed

lemma handleUpdate_fresh:
  assumes "admits (engine DB) t" and "catalogued DB t = None"
  shows "snd (handleUpdate request DB t ident) = added DB t \<and>
    status (fst (handleUpdate request DB t ident)) \<in> {400, 404}"
proof -
  from assms(1) have d: "denied (engine DB) t = None" by (simp add: admits_def)
  show ?thesis
    by (simp add: handleUpdate_def ensureTable_absent [OF assms] select_where_id_added [OF d]
        failed_in_def record_not_found_def split: option.splits)
qed

text \<open>
  C10, as amended. In the generic item endpoint provisioning comes first in each handler.
  For every request with a bound datastore, a present id, the method GET, PUT or DELETE
  and a valid table name that the engine admits, the name stands for a table when the
  request has completed, whatever the answer. When the name stood for no table, the
  datastore afterwards is the one before the request with the empty generic table added,
  and the answer is an error (400 or 404): a failing request to a fresh table name still
  creates the table. When the name stood for a generic table, it still does.
\<close>

theorem item_requests_provision:
  assumes "ctx_DB ctx = Some DB" and "isValidTableName (tableName_of (ctx_request ctx))"
    and "ctx_id ctx = Some ident" and "ident \<noteq> []"
    and "http_method (ctx_request ctx) \<in> {''GET'', ''PUT'', ''DELETE''}"
    and "admits (engine DB) (tableName_of (ctx_request ctx))"
  shows "\<exists>DB'. snd (item_onRequest ctx) = Some DB' \<and>
      (\<exists>e. catalogued DB' (tableName_of (ctx_request ctx)) = Some e) \<and>
      (catalogued DB (tableName_of (ctx_request ctx)) = None \<longrightarrow>
         DB' = added DB (tableName_of (ctx_request ctx)) \<and>
         generic_table DB' (tableName_of (ctx_request ctx)) = Some empty_table \<and>
         status (fst (item_onRequest ctx)) \<in> {400, 404}) \<and>
      (\<forall>tb. generic_table DB (tableName_of (ctx_request ctx)) = Some tb \<longrightarrow>
         (\<exists>tb'. generic_table DB' (tableName_of (ctx_request ctx)) = Some tb'))"
proof -
  let ?t = "tableName_of (ctx_request ctx)"
  let ?D1 = "snd (ensureTable DB ?t)"
  from assms(5) have o: "http_method (ctx_request ctx) \<noteq> ''OPTIONS''" by auto
  note d = item_onRequest_dispatch [OF assms(1-4) o]
  from assms(5) consider "http_method (ctx_request ctx) = ''GET''"
    | "http_method (ctx_request ctx) = ''PUT''" | "http_method (ctx_request ctx) = ''DELETE''"
    by auto
  then obtain response DB' where r: "item_onRequest ctx = (response, Some DB')"
    and st: "DB' = ?D1 \<or>
      (\<exists>columns vals. DB' = snd (update_set ?D1 ?t columns vals ident)) \<or>
      DB' = snd (delete_where_id ?D1 ?t ident)"
    and fresh: "catalogued DB ?t = None \<longrightarrow> DB' = added DB ?t \<and> status response \<in> {400, 404}"
  proof cases
    case 1
    let ?h = "handleGetSingle DB ?t ident"
    show ?thesis
    proof (rule that [of "fst ?h" "snd ?h"])
      from 1 show "item_onRequest ctx = (fst ?h, Some (snd ?h))"
        by (simp add: d with_binding_def)
      have "snd ?h = ?D1" by (rule handleGetSingle_state)
      then show "snd ?h = ?D1 \<or>
          (\<exists>columns vals. snd ?h = snd (update_set ?D1 ?t columns vals ident)) \<or>
          snd ?h = snd (delete_where_id ?D1 ?t ident)" by (rule disjI1)
      show "catalogued DB ?t = None \<longrightarrow> snd ?h = added DB ?t \<and> status (fst ?h) \<in> {400, 404}"
        by (simp add: handleGetSingle_fresh [OF assms(6)] record_not_found_def)
    qed
  next
    case 2
    let ?h = "handleUpdate (ctx_request ctx) DB ?t ident"
    show ?thesis
    proof (rule that [of "fst ?h" "snd ?h"])
      from 2 show "item_onRequest ctx = (fst ?h, Some (snd ?h))"
        by (simp add: d with_binding_def)
      have "snd ?h = ?D1 \<or> (\<exists>columns vals. snd ?h = snd (update_set ?D1 ?t columns vals ident))"
        by (rule handleUpdate_state)
      then show "snd ?h = ?D1 \<or>
          (\<exists>columns vals. snd ?h = snd (update_set ?D1 ?t columns vals ident)) \<or>
          snd ?h = snd (delete_where_id ?D1 ?t ident)" by blast
      show "catalogued DB ?t = None \<longrightarrow> snd ?h = added DB ?t \<and> status (fst ?h) \<in> {400, 404}"
        using handleUpdate_fresh [OF assms(6), of "ctx_request ctx" ident] by blast
    qed
  next
    case 3
    let ?h = "handleDelete DB ?t ident"
    show ?thesis
    proof (rule that [of "fst ?h" "snd ?h"])
      from 3 show "item_onRequest ctx = (fst ?h, Some (snd ?h))"
        by (simp add: d with_binding_def)
      have "snd ?h = ?D1 \<or> snd ?h = snd (delete_where_id ?D1 ?t ident)"
        by (rule handleDelete_state)
      then show "snd ?h = ?D1 \<or>
          (\<exists>columns vals. snd ?h = snd (update_set ?D1 ?t columns vals ident)) \<or>
          snd ?h = snd (delete_where_id ?D1 ?t ident)" by blast
      show "catalogued DB ?t = None \<longrightarrow> snd ?h = added DB ?t \<and> status (fst ?h) \<in> {400, 404}"
        by (simp add: handleDelete_fresh [OF assms(6)] record_not_found_def)
    qed
  qed
  have "\<exists>e. catalogued DB' ?t = Some e"
    by (rule item_handlers_keep(1) [OF st assms(6)])
  moreover have "\<exists>tb'. generic_table DB' ?t = Some tb'" if "generic_table DB ?t = Some tb" for tb
    using that by (rule item_handlers_keep(2) [OF st assms(6)])
  moreover have "generic_table DB' ?t = Some empty_table" if "catalogued DB ?t = None"
    using that fresh by (simp add: generic_table_added)
  ultimately show ?thesis using r fresh by auto
qed

theorem item_requests_provision_witness:
  "http_method (ctx_request (item_context_for ''PUT'' ''contacts'' None (None :: int json option)
      (store_without_tables one_only) ''1'')) \<in> {''GET'', ''PUT'', ''DELETE''} \<and>
   isValidTableName ''contacts'' \<and>
   admits (engine (store_without_tables one_only)) ''contacts'' \<and>
   catalogued (store_without_tables one_only) ''contacts'' = None \<and>
   snd (item_onRequest (item_context_for ''PUT'' ''contacts'' None None
      (store_without_tables one_only) ''1'')) =
     Some (added (store_without_tables one_only) ''contacts'') \<and>
   generic_table (added (store_without_tables one_only) ''contacts'') ''contacts'' = Some empty_table \<and>
   status (fst (item_onRequest (item_context_for ''PUT'' ''contacts'' None None
      (store_without_tables one_only) ''1''))) \<in> {400, 404}"
proof -
  let ?DB = "store_without_tables one_only"
  let ?ctx = "item_context_for ''PUT'' ''contacts'' None (None :: int json option) ?DB ''1''"
  have d: "ctx_DB ?ctx = Some ?DB" by simp
  have v: "isValidTableName (tableName_of (ctx_request ?ctx))" by (simp add: contacts_valid)
  have i: "ctx_id ?ctx = Some ''1''" "''1'' \<noteq> []" by simp_all
  have m: "http_method (ctx_request ?ctx) \<in> {''GET'', ''PUT'', ''DELETE''}" by simp
  have ad: "admits (engine ?DB) (tableName_of (ctx_request ?ctx))" by (simp add: contacts_admitted)
  have f: "catalogued ?DB (tableName_of (ctx_request ?ctx)) = None" by simp
  from item_requests_provision [OF d v i m ad] f
  obtain DB' where "snd (item_onRequest ?ctx) = Some DB'"
    and "DB' = added ?DB (tableName_of (ctx_request ?ctx))"
    and "generic_table DB' (tableName_of (ctx_request ?ctx)) = Some empty_table"
    and "status (fst (item_onRequest ?ctx)) \<in> {400, 404}"
    by blast
  then have "snd (item_onRequest ?ctx) = Some (added ?DB ''contacts'')"
    and "generic_table (added ?DB ''contacts'') ''contacts'' = Some empty_table"
    and "status (fst (item_onRequest ?ctx)) \<in> {400, 404}"
    by simp_all
  with m contacts_valid ad f show ?thesis by simp
qed

text \<open>
  The specification has the named table exist after every such request. The name
  \<open>select\<close> is valid; the DELETE is answered with 400, and afterwards the name stands
  for no table.
\<close>

theorem delete_at_select_provisions_nothing:
  "isValidTableName ''select'' \<and>
   http_method (ctx_request (item_context_for ''DELETE'' ''select'' None (None :: int json option)
      (store_without_tables one_only) ''1'')) \<in> {''GET'', ''PUT'', ''DELETE''} \<and>
   item_onRequest (item_context_for ''DELETE'' ''select'' None None
       (store_without_tables one_only) ''1'') =
     (\<lparr>status = 400,
       body = ErrorBody (ErrorFrom (''Delete failed from table '' @ quoted ''select'' @ '': '')
                (D1Error SqlSyntax))\<rparr>,
      Some (store_without_tables one_only)) \<and>
   catalogued (store_without_tables one_only) ''select'' = None"
proof -
  have e: "ensureTable (store_without_tables one_only) ''select'' =
      (Inl SqlSyntax, store_without_tables one_only)"
    by (simp add: ensureTable_denied select_denied)
  have "item_onRequest (item_context_for ''DELETE'' ''select'' None None
       (store_without_tables one_only) ''1'') =
     (\<lparr>status = 400,
       body = ErrorBody (ErrorFrom (''Delete failed from table '' @ quoted ''select'' @ '': '')
                (D1Error SqlSyntax))\<rparr>,
      Some (store_without_tables one_only))"
    by (simp add: item_onRequest_def Let_def select_valid with_binding_def handleDelete_def e
        failed_in_def)
  then show ?thesis by (simp add: select_valid)
qed

subsection \<open>Updating one field\<close>

lemma assign_single: "assign [c] [v] old = old(c := v)"
  by (simp add: assign_def fun_eq_iff)

lemma filter_key_unique:
  "distinct (map f xs) \<Longrightarrow> x \<in> set xs \<Longrightarrow> filter (\<lambda>y. f y = f x) xs = [x]"
proof (induction xs)
  case Nil
  then show ?case by simp
next
  case (Cons a xs)
  show ?case
  proof (cases "a = x")
    case True
    with Cons.prems have "f x \<notin> f ` set xs" by simp
    then have "\<forall>y \<in> set xs. f y \<noteq> f x" by (metis imageI)
    then have "filter (\<lambda>y. f y = f x) xs = []" by (simp add: filter_empty_conv)
    with True show ?thesis by simp
  next
    case False
    with Cons.prems have "x \<in> set xs" and "f a \<noteq> f x" by auto
    with Cons show ?thesis by simp
  qed
qed

lemma find_member: "x \<in> set xs \<Longrightarrow> P x \<Longrightarrow> \<exists>y. find P xs = Some y"
  by (cases "find P xs") (auto simp: find_None_iff)

lemma changes_not_a_member: "js_member (d1_result meta) ''changes'' = None"
  by (simp add: d1_result_def)

lemma changes_in_meta:
  "member_of (js_member (d1_result [(''changes'', n)]) ''meta'') ''changes'' = Inr (Some n)"
  by (simp add: d1_result_def member_of_def)

text \<open>
  The statement of an update that names one recognized field of an existing row: one row
  changes, in that column, and the result says so in \<open>meta\<close>.
\<close>

lemma update_set_one_field:
  assumes d: "denied (engine DB) t = None"
    and cat: "catalogued DB t = Some e" and gen: "content e = Generic tb"
    and cin: "c \<in> set text_columns"
    and bind: "d1_bind (engine DB) x = Inr v"
    and r: "r \<in> set (rows tb)" "coerce_id (engine DB) ident = Some (id_x r)"
    and pk: "distinct (map id_x (rows tb))"
  shows "update_set DB t [c] [x] ident =
    (Inr (d1_result [(''changes'', JsNumber 1)]),
     with_table DB t e
       (tb\<lparr>rows := map (\<lambda>r'. if id_x r' = id_x r
                              then r'\<lparr>cells := (cells r')(c := text_affinity (engine DB) v)\<rparr>
                              else r') (rows tb)\<rparr>))"
proof -
  have m: "matches_id DB ident = (\<lambda>r'. id_x r' = id_x r)"
    using r(2) by (auto simp: matches_id_def fun_eq_iff)
  have n: "length (filter (\<lambda>r'. id_x r' = id_x r) (rows tb)) = 1"
    using filter_key_unique [OF pk r(1)] by simp
  from cin show ?thesis
    by (simp add: update_set_def bind with_column_generic [OF d cat gen] m n stored_def
        assign_single find_None_iff cong: if_cong)
qed

lemma handleUpdate_one_field:
  assumes ad: "admits (engine DB) t"
    and cat: "catalogued DB t = Some e" and gen: "content e = Generic tb"
    and ct: "is_json_content_type (content_type request)"
    and body: "json_body request = Some (JObj kvs)"
    and call: "''hasOwnProperty'' \<notin> set (map fst kvs)"
    and only: "recognized_fields (JObj kvs) = [c]"
    and bind: "d1_bind (engine DB) (map_of kvs c) = Inr v"
    and r: "r \<in> set (rows tb)" "coerce_id (engine DB) ident = Some (id_x r)"
    and pk: "distinct (map id_x (rows tb))"
  shows "handleUpdate request DB t ident =
    (\<lparr>status = 200, body = UpdatedBody t None [c] (JObj kvs)\<rparr>,
     with_table DB t e
       (tb\<lparr>rows := map (\<lambda>r'. if id_x r' = id_x r
                              then r'\<lparr>cells := (cells r')(c := text_affinity (engine DB) v)\<rparr>
                              else r') (rows tb)\<rparr>))"
proof -
  from ad have d: "denied (engine DB) t = None" by (simp add: admits_def)
  have e: "ensureTable DB t = (Inr (), DB)" using ad cat by (rule ensureTable_present)
  from r obtain y where f: "find (matches_id DB ident) (rows tb) = Some y"
    using find_member [of r "rows tb" "matches_id DB ident"] by (auto simp: matches_id_def)
  have s: "select_where_id DB t [''id_x''] ident =
      Inr (Some (filter (\<lambda>(k, v). k \<in> set [''id_x'']) (row_object y)))"
    by (simp add: select_where_id_generic [OF d cat gen] f)
  have callable: "callable (JObj kvs)" using call by (simp add: callable_def)
  have enc: "encode (JObj kvs) = Inr ([c], [map_of kvs c])"
    by (simp add: encode_recognized [OF callable] only)
  have cin: "c \<in> set text_columns"
  proof -
    have "c \<in> set (recognized_fields (JObj kvs))" by (simp add: only)
    then show ?thesis by (simp add: recognized_fields_def)
  qed
  note u = update_set_one_field [OF d cat gen cin bind r pk]
  show ?thesis
    by (simp add: handleUpdate_def e ct body s enc u changes_not_a_member)
qed

text \<open>A value the binding does not take leaves the row as it is; the answer is 400.\<close>

lemma handleUpdate_value_refused:
  assumes ad: "admits (engine DB) t"
    and cat: "catalogued DB t = Some e" and gen: "content e = Generic tb"
    and ct: "is_json_content_type (content_type request)"
    and body: "json_body request = Some (JObj kvs)"
    and call: "''hasOwnProperty'' \<notin> set (map fst kvs)"
    and only: "recognized_fields (JObj kvs) = [c]"
    and bind: "d1_bind (engine DB) (map_of kvs c) = Inl err"
    and r: "r \<in> set (rows tb)" "coerce_id (engine DB) ident = Some (id_x r)"
  shows "handleUpdate request DB t ident =
    (failed_in ''Update failed in table '' t (D1Error err), DB)"
proof -
  from ad have d: "denied (engine DB) t = None" by (simp add: admits_def)
  have e: "ensureTable DB t = (Inr (), DB)" using ad cat by (rule ensureTable_present)
  from r obtain y where f: "find (matches_id DB ident) (rows tb) = Some y"
    using find_member [of r "rows tb" "matches_id DB ident"] by (auto simp: matches_id_def)
  have s: "select_where_id DB t [''id_x''] ident =
      Inr (Some (filter (\<lambda>(k, v). k \<in> set [''id_x'']) (row_object y)))"
    by (simp add: select_where_id_generic [OF d cat gen] f)
  have callable: "callable (JObj kvs)" using call by (simp add: callable_def)
  have enc: "encode (JObj kvs) = Inr ([c], [map_of kvs c])"
    by (simp add: encode_recognized [OF callable] only)
  have u: "update_set DB t [c] [map_of kvs c] ident = (Inl err, DB)"
    by (simp add: update_set_def bind)
  show ?thesis
    by (simp add: handleUpdate_def e ct body s enc u)
qed

lemma with_table_store_with_table:
  "with_table (store_with_table co t tb) t \<lparr>declared = t, content = Generic tb\<rparr> tb' =
     store_with_table co t tb'"
  by (simp add: with_table_def store_with_table_def)

text \<open>
  C7. A PUT whose payload has only the recognized field \<open>x_03\<close> is meant to change
  that column of the addressed row and nothing else, and to report one changed row. For
  a payload on which \<open>hasOwnProperty\<close> can be called and a value the binding takes,
  the datastore afterwards does differ from the one before in the column \<open>x_03\<close> of
  the addressed row only (\<open>handleUpdate_one_field\<close>), and the result of the statement
  holds the count 1 under \<open>meta\<close> (\<open>update_set_one_field\<close>, \<open>changes_in_meta\<close>).
  The handler reads \<open>updateResult.changes\<close>, which the result does not have: the
  response to the PUT of \<open>{x_03: new}\<close> on row 1 of a table with the rows 1 and 2
  has no \<open>changes\<close>.
\<close>

theorem put_single_field_reports_no_changes:
  "item_onRequest (item_context_for ''PUT'' ''contacts'' (Some ''application/json'')
       (Some (JObj [(''x_03'', JStr ''new'')]))
       (store_with_table one_only ''contacts'' \<lparr>rows = [blank_row 1, blank_row 2], sequence = 2\<rparr>)
       ''1'') =
     (\<lparr>status = 200,
       body = UpdatedBody ''contacts'' None [''x_03''] (JObj [(''x_03'', JStr ''new'')])\<rparr>,
      Some (store_with_table one_only ''contacts''
              \<lparr>rows = [(blank_row 1)\<lparr>cells := (cells (blank_row 1))(''x_03'' := SText ''new'')\<rparr>,
                       blank_row 2],
               sequence = 2\<rparr>)) \<and>
   fst (update_set
          (store_with_table one_only ''contacts'' \<lparr>rows = [blank_row 1, blank_row 2], sequence = 2\<rparr>)
          ''contacts'' [''x_03''] [Some (JStr ''new'')] ''1'') =
     Inr (d1_result [(''changes'', JsNumber 1)])"
proof -
  let ?tb = "\<lparr>rows = [blank_row 1 :: int row, blank_row 2], sequence = 2\<rparr>"
  let ?DB = "store_with_table one_only ''contacts'' ?tb"
  let ?e = "\<lparr>declared = ''contacts'', content = Generic ?tb\<rparr>"
  let ?kvs = "[(''x_03'', JStr ''new'') :: string \<times> int json]"
  let ?request = "request_for ''PUT'' ''contacts'' (Some ''application/json'') (Some (JObj ?kvs))"
  have ad: "admits (engine ?DB) ''contacts''" by (simp add: contacts_admitted)
  then have d: "denied (engine ?DB) ''contacts'' = None" by (simp add: admits_def)
  have cat: "catalogued ?DB ''contacts'' = Some ?e" by simp
  have gen: "content ?e = Generic ?tb" by simp
  have ct: "is_json_content_type (content_type ?request)" by (simp add: is_json_content_type_def)
  have b: "json_body ?request = Some (JObj ?kvs)" by simp
  have h: "''hasOwnProperty'' \<notin> set (map fst ?kvs)" by simp
  have rf: "recognized_fields (JObj ?kvs) = [''x_03'']"
    by (simp add: recognized_fields_def text_columns_def)
  have bd: "d1_bind (engine ?DB) (map_of ?kvs ''x_03'') = Inr (SText ''new'')"
    by (simp add: d1_bind_def)
  have bd': "d1_bind (engine ?DB) (Some (JStr ''new'')) = Inr (SText ''new'')"
    by (simp add: d1_bind_def)
  have r: "blank_row 1 \<in> set (rows ?tb)" "coerce_id (engine ?DB) ''1'' = Some (id_x (blank_row 1 :: int row))"
    by (simp_all add: blank_row_def one_only_def)
  have pk: "distinct (map id_x (rows ?tb))" by (simp add: blank_row_def)
  have cin: "''x_03'' \<in> set text_columns" by (simp add: text_columns_def)
  have "handleUpdate ?request ?DB ''contacts'' ''1'' =
      (\<lparr>status = 200, body = UpdatedBody ''contacts'' None [''x_03''] (JObj ?kvs)\<rparr>,
       store_with_table one_only ''contacts''
         \<lparr>rows = [(blank_row 1)\<lparr>cells := (cells (blank_row 1))(''x_03'' := SText ''new'')\<rparr>,
                  blank_row 2],
          sequence = 2\<rparr>)"
    by (subst handleUpdate_one_field [OF ad cat gen ct b h rf bd r pk])
      (simp add: with_table_store_with_table text_affinity_def blank_row_def)
  then have "item_onRequest (item_context_for ''PUT'' ''contacts'' (Some ''application/json'')
       (Some (JObj ?kvs)) ?DB ''1'') =
     (\<lparr>status = 200, body = UpdatedBody ''contacts'' None [''x_03''] (JObj ?kvs)\<rparr>,
      Some (store_with_table one_only ''contacts''
              \<lparr>rows = [(blank_row 1)\<lparr>cells := (cells (blank_row 1))(''x_03'' := SText ''new'')\<rparr>,
                       blank_row 2],
               sequence = 2\<rparr>))"
    by (simp add: item_onRequest_def Let_def contacts_valid with_binding_def)
  moreover have "fst (update_set ?DB ''contacts'' [''x_03''] [Some (JStr ''new'')] ''1'') =
      Inr (d1_result [(''changes'', JsNumber 1)])"
    by (subst update_set_one_field [OF d cat gen cin bd' r pk]) simp
  ultimately show ?thesis by simp
qed

section \<open>Creating and listing\<close>

lemma getContacts_generic:
  assumes "admits (engine DB) t" and "catalogued DB t = Some e" and "content e = Generic tb"
  shows "getContacts DB t =
     (\<lparr>status = 200,
       body = ListBody t (length (rows tb)) (map row_object (rev (sort_key id_x (rows tb))))\<rparr>,
      DB)"
proof -
  from assms(1) have d: "denied (engine DB) t = None" by (simp add: admits_def)
  show ?thesis
    by (simp add: getContacts_def ensureTable_present [OF assms(1,2)] select_all_desc_def
        with_column_generic [OF d assms(2,3)])
qed

lemma getContacts_fresh:
  assumes "admits (engine DB) t" and "catalogued DB t = None"
  shows "getContacts DB t = (\<lparr>status = 200, body = ListBody t 0 []\<rparr>, added DB t)"
proof -
  from assms(1) have d: "denied (engine DB) t = None" by (simp add: admits_def)
  show ?thesis
    by (simp add: getContacts_def ensureTable_absent [OF assms] select_all_desc_def
        with_column_added [OF d] empty_table_def)
qed

lemma onRequest_get:
  assumes "http_method request = ''GET''" and "isValidTableName (tableName_of request)"
  shows "onRequest request DB = getContacts DB (tableName_of request)"
  using assms by (simp add: onRequest_def)

lemma listing_descending: "sorted (rev (map id_x (rev (sort_key id_x rs))))"
  by (simp add: rev_map [symmetric])

lemma createContact_two_fields:
  assumes "admits (engine DB) t" and "catalogued DB t = None"
    and "json_body request = Some (JObj [(''x_01'', JStr a), (''x_05'', JStr b)])"
  shows "createContact request DB t =
    (Inr \<lparr>status = 200,
          body = CreatedBody t (Some (JsNumber 1)) [''x_01'', ''x_05'']
                   (JObj [(''x_01'', JStr a), (''x_05'', JStr b)])\<rparr>,
     with_table (added DB t) t \<lparr>declared = t, content = Generic empty_table\<rparr>
       \<lparr>rows = [\<lparr>id_x = 1, cells = (\<lambda>c. SNull)(''x_01'' := SText a, ''x_05'' := SText b)\<rparr>],
        sequence = 1\<rparr>)"
proof -
  let ?data = "JObj [(''x_01'', JStr a), (''x_05'', JStr b)]"
  from assms(1) have d: "denied (engine DB) t = None" by (simp add: admits_def)
  have c: "callable ?data" by (simp add: callable_def)
  have r: "recognized_fields ?data = [''x_01'', ''x_05'']"
    by (simp add: recognized_fields_def text_columns_def)
  have enc: "encode ?data = Inr ([''x_01'', ''x_05''], [Some (JStr a), Some (JStr b)])"
    by (simp add: encode_recognized [OF c] r)
  have a: "assign [''x_01'', ''x_05''] [SText a, SText b] (\<lambda>c. SNull) =
      (\<lambda>c. SNull)(''x_01'' := SText a, ''x_05'' := SText b)"
    by (auto simp: assign_def fun_eq_iff)
  have ins: "insert_into (added DB t) t [''x_01'', ''x_05''] [Some (JStr a), Some (JStr b)] =
      (Inr (d1_result [(''changes'', JsNumber 1), (''last_row_id'', JsNumber 1)]),
       with_table (added DB t) t \<lparr>declared = t, content = Generic empty_table\<rparr>
         \<lparr>rows = [\<lparr>id_x = 1, cells = (\<lambda>c. SNull)(''x_01'' := SText a, ''x_05'' := SText b)\<rparr>],
          sequence = 1\<rparr>)"
    by (simp add: insert_into_def d1_bind_def with_column_added [OF d] stored_def
        text_affinity_def empty_table_def next_id_def text_columns_def a)
  have cr: "created t (d1_result [(''changes'', JsNumber 1), (''last_row_id'', JsNumber 1)])
        [''x_01'', ''x_05''] ?data =
      Inr \<lparr>status = 200,
           body = CreatedBody t (Some (JsNumber 1)) [''x_01'', ''x_05''] ?data\<rparr>"
    by (simp add: created_def d1_result_def member_of_def)
  from assms show ?thesis
    by (simp add: createContact_def ensureTable_absent enc ins cr)
qed

lemma row_object_two_fields:
  "row_object \<lparr>id_x = k, cells = (\<lambda>c. SNull)(''x_01'' := SText a, ''x_05'' := SText b)\<rparr> =
         [(''id_x'', SInt k), (''x_01'', SText a), (''x_02'', SNull), (''x_03'', SNull),
          (''x_04'', SNull), (''x_05'', SText b), (''x_06'', SNull), (''x_07'', SNull),
          (''x_08'', SNull), (''x_09'', SNull), (''x_10'', SNull), (''x_11'', SNull),
          (''x_12'', SNull), (''x_13'', SNull), (''x_14'', SNull), (''x_15'', SNull),
          (''x_16'', SNull), (''x_17'', SNull), (''x_18'', SNull), (''x_19'', SNull),
          (''x_20'', SNull)]"
  by (simp add: row_object_def text_columns_def)

text \<open>
  C5, as amended. Creating a row with the payload \<open>{x_01: a, x_05: b}\<close> under a valid
  table name that the engine admits and that stands for no table yet (in whatever case
  its letters are written) answers 200 with the id 1, a positive integer, and the two
  inserted fields; the datastore afterwards has the generic table under the name,
  declared as the request wrote it, whose only row has the key 1, \<open>x_01 = a\<close>,
  \<open>x_05 = b\<close> and \<open>NULL\<close> in every other column, and whose counter stands at 1.
  Listing the table afterwards answers 200 with the count 1 and exactly that row: the key
  and the twenty columns of the fixed schema. Whenever such a name stands for a generic
  table, a listing answers with all rows of the table, in descending order of
  \<open>id_x\<close>, and with their number as the count.
\<close>

theorem create_then_list:
  assumes "isValidTableName t" and "admits (engine DB) t" and "catalogued DB t = None"
    and "http_method post = ''POST''" and "tableName_of post = t"
    and "json_body post = Some (JObj [(''x_01'', JStr ''a''), (''x_05'', JStr ''b'')])"
    and "http_method get = ''GET''" and "tableName_of get = t"
  shows
    "fst (onRequest post DB) =
       \<lparr>status = 200,
        body = CreatedBody t (Some (JsNumber 1)) [''x_01'', ''x_05'']
                 (JObj [(''x_01'', JStr ''a''), (''x_05'', JStr ''b'')])\<rparr> \<and>
     catalogued (snd (onRequest post DB)) t =
       Some \<lparr>declared = t,
             content = Generic
               \<lparr>rows = [\<lparr>id_x = 1,
                         cells = (\<lambda>c. SNull)(''x_01'' := SText ''a'', ''x_05'' := SText ''b'')\<rparr>],
                sequence = 1\<rparr>\<rparr> \<and>
     (\<forall>k e. tables DB k = Some e \<longrightarrow> tables (snd (onRequest post DB)) k = Some e) \<and>
     onRequest get (snd (onRequest post DB)) =
       (\<lparr>status = 200,
         body = ListBody t 1
           [
            [(''id_x'', SInt 1), (''x_01'', SText ''a''), (''x_02'', SNull), (''x_03'', SNull),
             (''x_04'', SNull), (''x_05'', SText ''b''), (''x_06'', SNull), (''x_07'', SNull),
             (''x_08'', SNull), (''x_09'', SNull), (''x_10'', SNull), (''x_11'', SNull),
             (''x_12'', SNull), (''x_13'', SNull), (''x_14'', SNull), (''x_15'', SNull),
             (''x_16'', SNull), (''x_17'', SNull), (''x_18'', SNull), (''x_19'', SNull),
             (''x_20'', SNull)]
           ]\<rparr>,
        snd (onRequest post DB)) \<and>
     (\<forall>D e tb. admits (engine D) t \<and> catalogued D t = Some e \<and> content e = Generic tb \<longrightarrow>
        (\<exists>rs. onRequest get D =
           (\<lparr>status = 200, body = ListBody t (length rs) (map row_object rs)\<rparr>, D) \<and>
         sorted (rev (map id_x rs)) \<and> set rs = set (rows tb) \<and> length rs = length (rows tb)))"
proof -
  let ?row = "\<lparr>id_x = 1, cells = (\<lambda>c. SNull)(''x_01'' := SText ''a'', ''x_05'' := SText ''b'')\<rparr>"
  let ?tb = "\<lparr>rows = [?row], sequence = 1\<rparr>"
  let ?new = "\<lparr>declared = t, content = Generic empty_table\<rparr>"
  let ?DB' = "with_table (added DB t) t ?new ?tb"
  have valid_post: "isValidTableName (tableName_of post)"
    and valid_get: "isValidTableName (tableName_of get)"
    using assms by simp_all
  have created: "onRequest post DB =
      (\<lparr>status = 200,
        body = CreatedBody t (Some (JsNumber 1)) [''x_01'', ''x_05'']
                 (JObj [(''x_01'', JStr ''a''), (''x_05'', JStr ''b'')])\<rparr>, ?DB')"
    using assms(5) createContact_two_fields [OF assms(2) assms(3) assms(6)]
    by (simp add: onRequest_post [OF assms(4) valid_post])
  have cat: "catalogued ?DB' t = Some \<lparr>declared = t, content = Generic ?tb\<rparr>" by simp
  have keeps: "tables ?DB' k = Some e" if "tables DB k = Some e" for k e
  proof -
    from that assms(3) have "k \<noteq> fold_case t" by (auto simp: catalogued_def)
    moreover from that assms(3) have "tables (added DB t) k = Some e" by (rule added_keeps)
    ultimately show ?thesis by (simp add: with_table_def)
  qed
  have ad': "admits (engine ?DB') t" using assms(2) by simp
  have listed: "onRequest get ?DB' =
      (\<lparr>status = 200, body = ListBody t 1 [row_object ?row]\<rparr>, ?DB')"
    using assms(8)
    by (simp add: onRequest_get [OF assms(7) valid_get] getContacts_generic [OF ad' cat])
  have every: "\<exists>rs. onRequest get D =
        (\<lparr>status = 200, body = ListBody t (length rs) (map row_object rs)\<rparr>, D) \<and>
      sorted (rev (map id_x rs)) \<and> set rs = set (rows tb) \<and> length rs = length (rows tb)"
    if "admits (engine D) t \<and> catalogued D t = Some e \<and> content e = Generic tb" for D e tb
  proof -
    let ?rs = "rev (sort_key id_x (rows tb))"
    from that have a: "admits (engine D) t" and c: "catalogued D t = Some e"
      and g: "content e = Generic tb" by simp_all
    have "onRequest get D =
        (\<lparr>status = 200, body = ListBody t (length ?rs) (map row_object ?rs)\<rparr>, D)"
      using assms(8) by (simp add: onRequest_get [OF assms(7) valid_get] getContacts_generic [OF a c g])
    moreover have "sorted (rev (map id_x ?rs))" by (rule listing_descending)
    moreover have "set ?rs = set (rows tb)" by simp
    moreover have "length ?rs = length (rows tb)" by simp
    ultimately show ?thesis by blast
  qed
  show ?thesis
  proof (intro conjI allI impI)
    show "fst (onRequest post DB) =
       \<lparr>status = 200,
        body = CreatedBody t (Some (JsNumber 1)) [''x_01'', ''x_05'']
                 (JObj [(''x_01'', JStr ''a''), (''x_05'', JStr ''b'')])\<rparr>"
      by (simp add: created)
    show "catalogued (snd (onRequest post DB)) t = Some \<lparr>declared = t, content = Generic ?tb\<rparr>"
      by (simp add: created)
    show "tables (snd (onRequest post DB)) k = Some e" if "tables DB k = Some e" for k e
      using that by (simp add: created keeps)
    show "onRequest get (snd (onRequest post DB)) =
       (\<lparr>status = 200,
         body = ListBody t 1
           [
            [(''id_x'', SInt 1), (''x_01'', SText ''a''), (''x_02'', SNull), (''x_03'', SNull),
             (''x_04'', SNull), (''x_05'', SText ''b''), (''x_06'', SNull), (''x_07'', SNull),
             (''x_08'', SNull), (''x_09'', SNull), (''x_10'', SNull), (''x_11'', SNull),
             (''x_12'', SNull), (''x_13'', SNull), (''x_14'', SNull), (''x_15'', SNull),
             (''x_16'', SNull), (''x_17'', SNull), (''x_18'', SNull), (''x_19'', SNull),
             (''x_20'', SNull)]
           ]\<rparr>,
        snd (onRequest post DB))"
      by (simp add: created listed row_object_two_fields)
    show "\<exists>rs. onRequest get D =
           (\<lparr>status = 200, body = ListBody t (length rs) (map row_object rs)\<rparr>, D) \<and>
         sorted (rev (map id_x rs)) \<and> set rs = set (rows tb) \<and> length rs = length (rows tb)"
      if "admits (engine D) t \<and> catalogued D t = Some e \<and> content e = Generic tb" for D e tb
      using that by (rule every)
  qed
qed

theorem create_then_list_witness:
  "isValidTableName ''contacts'' \<and>
   admits (engine (store_without_tables one_only)) ''contacts'' \<and>
   catalogued (store_without_tables one_only) ''contacts'' = None \<and>
   fst (onRequest
      (request_for ''POST'' ''contacts'' None (Some (JObj [(''x_01'', JStr ''a''), (''x_05'', JStr ''b'')])))
      (store_without_tables one_only)) =
     \<lparr>status = 200,
      body = CreatedBody ''contacts'' (Some (JsNumber 1)) [''x_01'', ''x_05'']
               (JObj [(''x_01'', JStr ''a''), (''x_05'', JStr ''b'')])\<rparr> \<and>
   fst (onRequest (request_for ''GET'' ''contacts'' None None)
      (snd (onRequest
         (request_for ''POST'' ''contacts'' None
            (Some (JObj [(''x_01'', JStr ''a''), (''x_05'', JStr ''b'')])))
         (store_without_tables one_only)))) =
     \<lparr>status = 200,
      body = ListBody ''contacts'' 1
        [
         [(''id_x'', SInt 1), (''x_01'', SText ''a''), (''x_02'', SNull), (''x_03'', SNull),
          (''x_04'', SNull), (''x_05'', SText ''b''), (''x_06'', SNull), (''x_07'', SNull),
          (''x_08'', SNull), (''x_09'', SNull), (''x_10'', SNull), (''x_11'', SNull),
          (''x_12'', SNull), (''x_13'', SNull), (''x_14'', SNull), (''x_15'', SNull),
          (''x_16'', SNull), (''x_17'', SNull), (''x_18'', SNull), (''x_19'', SNull),
          (''x_20'', SNull)]
        ]\<rparr>"
proof -
  let ?post = "request_for ''POST'' ''contacts'' None
      (Some (JObj [(''x_01'', JStr ''a''), (''x_05'', JStr ''b'')])) :: int request"
  let ?get = "request_for ''GET'' ''contacts'' None None :: int request"
  let ?DB = "store_without_tables one_only"
  have ad: "admits (engine ?DB) ''contacts''" by (simp add: contacts_admitted)
  have f: "catalogued ?DB ''contacts'' = None" by simp
  have p: "http_method ?post = ''POST''" "tableName_of ?post = ''contacts''"
    "json_body ?post = Some (JObj [(''x_01'', JStr ''a''), (''x_05'', JStr ''b'')])"
    by simp_all
  have g: "http_method ?get = ''GET''" "tableName_of ?get = ''contacts''" by simp_all
  note inst = create_then_list [OF contacts_valid ad f p g]
  from inst have r1: "fst (onRequest ?post ?DB) =
       \<lparr>status = 200,
        body = CreatedBody ''contacts'' (Some (JsNumber 1)) [''x_01'', ''x_05'']
                 (JObj [(''x_01'', JStr ''a''), (''x_05'', JStr ''b'')])\<rparr>"
    by blast
  from inst obtain s2 where
    "onRequest ?get (snd (onRequest ?post ?DB)) =
       (\<lparr>status = 200,
         body = ListBody ''contacts'' 1
           [
            [(''id_x'', SInt 1), (''x_01'', SText ''a''), (''x_02'', SNull),
             (''x_03'', SNull), (''x_04'', SNull), (''x_05'', SText ''b''), (''x_06'', SNull),
             (''x_07'', SNull), (''x_08'', SNull), (''x_09'', SNull), (''x_10'', SNull),
             (''x_11'', SNull), (''x_12'', SNull), (''x_13'', SNull), (''x_14'', SNull),
             (''x_15'', SNull), (''x_16'', SNull), (''x_17'', SNull), (''x_18'', SNull),
             (''x_19'', SNull), (''x_20'', SNull)]
           ]\<rparr>, s2)"
    by blast
  with contacts_valid ad f r1 show ?thesis by simp
qed

text \<open>
  The specification has the table created and the row inserted for every valid fresh
  table name. The name \<open>select\<close> is valid and stands for no table; the POST is
  answered with 500, and no table has been added.
\<close>

theorem create_at_select_answered_500:
  "isValidTableName ''select'' \<and>
   catalogued (store_without_tables one_only) ''select'' = None \<and>
   onRequest
       (request_for ''POST'' ''select'' None
          (Some (JObj [(''x_01'', JStr ''a''), (''x_05'', JStr ''b'')])))
       (store_without_tables one_only) =
     (\<lparr>status = 500,
       body = ErrorBody (ErrorFrom (''Failed to save record to table '' @ quoted ''select'' @ '': '')
                (D1Error SqlSyntax))\<rparr>,
      store_without_tables one_only)"
proof -
  have e: "ensureTable (store_without_tables one_only) ''select'' =
      (Inl SqlSyntax, store_without_tables one_only)"
    by (simp add: ensureTable_denied select_denied)
  show ?thesis
    by (simp add: select_valid onRequest_def createContact_def e save_failed_def)
qed

section \<open>Properties of the endpoints without auto-create\<close>

lemma dom_with_table:
  "catalogued DB t = Some e \<Longrightarrow> dom (tables (with_table DB t e' tb)) = dom (tables DB)"
  by (auto simp: with_table_def catalogued_def)

lemma insert_into_dom: "dom (tables (snd (insert_into DB t columns vals))) = dom (tables DB)"
proof -
  from insert_into_state [of DB t columns vals]
  consider "snd (insert_into DB t columns vals) = DB"
    | e tb' where "catalogued DB t = Some e"
        and "snd (insert_into DB t columns vals) = with_table DB t e tb'"
    by blast
  then show ?thesis
  proof cases
    case 1
    then show ?thesis by simp
  next
    case 2
    then show ?thesis by (simp add: dom_with_table)
  qed
qed

lemma strict_createContact_dom:
  "dom (tables (snd (strict_createContact request DB t))) = dom (tables DB)"
proof -
  have "dom (tables (snd (case insert_into DB t columns vals of
        (Inl e, DB2) \<Rightarrow> (Inl (save_failed t (D1Error e)), DB2)
      | (Inr result, DB2) \<Rightarrow> (created t result columns requestData, DB2)))) =
      dom (tables DB)" for columns vals and requestData :: "'a json"
    using insert_into_dom [of DB t columns vals]
    by (cases "insert_into DB t columns vals") (auto split: sum.splits)
  then show ?thesis
    by (simp add: strict_createContact_def split: option.splits sum.splits prod.splits)
qed

lemma strict_onRequest_dom:
  "dom (tables (snd (strict_onRequest request DB))) = dom (tables DB)"
proof (cases "strict_createContact request DB (tableName_of request)")
  case (Pair outcome DB')
  with strict_createContact_dom [of request DB "tableName_of request"]
  have "dom (tables DB') = dom (tables DB)" by simp
  with Pair show ?thesis
    by (simp add: strict_onRequest_def Let_def strict_getContacts_def
        split: sum.splits prod.splits)
qed

lemma strict_onRequest_missing:
  assumes "isValidTableName (tableName_of request)"
    and "\<not> sqlite_master_first DB (tableName_of request)"
  shows "snd (strict_onRequest request DB) = DB"
    and "http_method request = ''GET'' \<or> (http_method request = ''POST'' \<and> json_body request \<noteq> None) \<Longrightarrow>
      fst (strict_onRequest request DB) = table_does_not_exist (tableName_of request)"
  using assms
  by (auto simp: strict_onRequest_def Let_def strict_getContacts_def strict_createContact_def
      split: option.splits)

lemma legacy_createContact_missing:
  assumes "contacts DB = None"
  shows "\<exists>e. legacy_createContact request DB = (Inl e, DB)"
  using assms
  by (auto simp: legacy_createContact_def sql_contacts_insert_def
      split: option.splits sum.splits prod.splits list.splits)

lemma legacy_onRequest_missing:
  assumes "contacts DB = None"
  shows "snd (legacy_onRequest request DB) = DB"
    and "http_method request = ''GET'' \<Longrightarrow>
      fst (legacy_onRequest request DB) =
        \<lparr>status = 500, body = ErrorBody (D1Error (NoSuchTable ''contacts''))\<rparr>"
    and "http_method request = ''POST'' \<Longrightarrow> status (fst (legacy_onRequest request DB)) = 500"
  using assms legacy_createContact_missing [OF assms, of request]
  by (auto simp: legacy_onRequest_def legacy_getContacts_def contacts_all_desc_def)

lemma legacy_handleDelete_missing:
  assumes "contacts DB = None"
  shows "legacy_handleDelete DB ident =
    (legacy_failed ''Delete failed: '' (D1Error (NoSuchTable ''contacts'')), DB)"
  using assms by (simp add: legacy_handleDelete_def contacts_where_id_def)

lemma legacy_handleUpdate_missing:
  assumes "contacts DB = None"
  shows "snd (legacy_handleUpdate request DB ident) = DB \<and>
    status (fst (legacy_handleUpdate request DB ident)) = 400"
  using assms
  by (auto simp: legacy_handleUpdate_def contacts_where_id_def legacy_failed_def
      split: option.splits sum.splits prod.splits)

lemma legacy_item_onRequest_missing:
  assumes "legacy_DB ctx = Some DB" and "contacts DB = None"
  shows "snd (legacy_item_onRequest ctx) = Some DB"
    and "legacy_id ctx = Some ident \<Longrightarrow> ident \<noteq> [] \<Longrightarrow>
      http_method (legacy_request ctx) = ''DELETE'' \<Longrightarrow>
      fst (legacy_item_onRequest ctx) =
        \<lparr>status = 400,
         body = ErrorBody (ErrorFrom ''Delete failed: '' (D1Error (NoSuchTable ''contacts'')))\<rparr>"
    and "legacy_id ctx = Some ident \<Longrightarrow> ident \<noteq> [] \<Longrightarrow>
      http_method (legacy_request ctx) = ''PUT'' \<Longrightarrow>
      status (fst (legacy_item_onRequest ctx)) = 400"
  using assms legacy_handleUpdate_missing [OF assms(2), of "legacy_request ctx"]
  by (auto simp: legacy_item_onRequest_def Let_def legacy_with_binding_def
      legacy_handleDelete_missing legacy_failed_def split: option.splits list.splits)

text \<open>
  C9, as amended. No request to an endpoint variant without auto-create creates a table.
  Of these variants only the collection endpoint that looks the table up answers a
  missing table with 404: on GET, and on POST once the body has parsed. The fixed-schema
  handlers never look the table up, so a missing table \<open>contacts\<close> shows as an error
  of the datastore: the collection endpoint answers every GET and POST with 500, and the
  item endpoint answers every PUT and DELETE that carries an id with 400; the datastore
  is unchanged.
\<close>

theorem missing_table_without_provisioning:
  "dom (tables (snd (strict_onRequest request DB))) = dom (tables DB) \<and>
   (isValidTableName (tableName_of request) \<and> \<not> sqlite_master_first DB (tableName_of request) \<longrightarrow>
      snd (strict_onRequest request DB) = DB \<and>
      (http_method request = ''GET'' \<or>
       (http_method request = ''POST'' \<and> json_body request \<noteq> None) \<longrightarrow>
         fst (strict_onRequest request DB) =
           \<lparr>status = 404,
            body = ErrorBody (Error (''Table '' @ quoted (tableName_of request) @
                      '' does not exist''))\<rparr>)) \<and>
   (contacts LDB = None \<longrightarrow>
      snd (legacy_onRequest lrequest LDB) = LDB \<and>
      (http_method lrequest = ''GET'' \<or> http_method lrequest = ''POST'' \<longrightarrow>
         status (fst (legacy_onRequest lrequest LDB)) = 500)) \<and>
   (legacy_DB ctx = Some IDB \<and> contacts IDB = None \<longrightarrow>
      snd (legacy_item_onRequest ctx) = Some IDB \<and>
      (\<forall>ident. legacy_id ctx = Some ident \<and> ident \<noteq> [] \<and>
         (http_method (legacy_request ctx) = ''PUT'' \<or>
          http_method (legacy_request ctx) = ''DELETE'') \<longrightarrow>
         status (fst (legacy_item_onRequest ctx)) = 400))"
proof (intro conjI impI allI)
  show "dom (tables (snd (strict_onRequest request DB))) = dom (tables DB)"
    by (rule strict_onRequest_dom)
next
  assume a: "isValidTableName (tableName_of request) \<and>
      \<not> sqlite_master_first DB (tableName_of request)"
  then show "snd (strict_onRequest request DB) = DB"
    by (simp add: strict_onRequest_missing(1))
  assume "http_method request = ''GET'' \<or>
      (http_method request = ''POST'' \<and> json_body request \<noteq> None)"
  with a have "fst (strict_onRequest request DB) = table_does_not_exist (tableName_of request)"
    by (intro strict_onRequest_missing(2)) simp_all
  then show "fst (strict_onRequest request DB) =
      \<lparr>status = 404,
       body = ErrorBody (Error (''Table '' @ quoted (tableName_of request) @ '' does not exist''))\<rparr>"
    by (simp add: table_does_not_exist_def)
next
  assume a: "contacts LDB = None"
  then show "snd (legacy_onRequest lrequest LDB) = LDB"
    by (rule legacy_onRequest_missing(1))
  assume "http_method lrequest = ''GET'' \<or> http_method lrequest = ''POST''"
  then show "status (fst (legacy_onRequest lrequest LDB)) = 500"
    using legacy_onRequest_missing(2,3) [OF a, of lrequest] by auto
next
  assume a: "legacy_DB ctx = Some IDB \<and> contacts IDB = None"
  then show "snd (legacy_item_onRequest ctx) = Some IDB"
    by (simp add: legacy_item_onRequest_missing(1))
  fix ident
  assume b: "legacy_id ctx = Some ident \<and> ident \<noteq> [] \<and>
      (http_method (legacy_request ctx) = ''PUT'' \<or> http_method (legacy_request ctx) = ''DELETE'')"
  from a have d: "legacy_DB ctx = Some IDB" and c: "contacts IDB = None" by simp_all
  from b show "status (fst (legacy_item_onRequest ctx)) = 400"
    using legacy_item_onRequest_missing(2,3) [OF d c, of ident] by auto
qed

theorem missing_table_without_provisioning_witness:
  "isValidTableName ''contacts'' \<and>
   \<not> sqlite_master_first (store_without_tables one_only) ''contacts'' \<and>
   strict_onRequest (request_for ''GET'' ''contacts'' None None) (store_without_tables one_only) =
     (\<lparr>status = 404,
       body = ErrorBody (Error (''Table '' @ quoted ''contacts'' @ '' does not exist''))\<rparr>,
      store_without_tables one_only) \<and>
   contacts (legacy_store_without_table one_only) = None \<and>
   status (fst (legacy_onRequest (request_for ''GET'' ''contacts'' None None)
       (legacy_store_without_table one_only))) = 500 \<and>
   snd (legacy_onRequest (request_for ''GET'' ''contacts'' None None)
       (legacy_store_without_table one_only)) = legacy_store_without_table one_only \<and>
   status (fst (legacy_item_onRequest
       \<lparr>legacy_request = request_for ''DELETE'' ''contacts'' None None,
        legacy_DB = Some (legacy_store_without_table one_only),
        legacy_id = Some ''1''\<rparr>)) = 400 \<and>
   snd (legacy_item_onRequest
       \<lparr>legacy_request = request_for ''DELETE'' ''contacts'' None None,
        legacy_DB = Some (legacy_store_without_table one_only),
        legacy_id = Some ''1''\<rparr>) = Some (legacy_store_without_table one_only)"
proof -
  let ?get = "request_for ''GET'' ''contacts'' None None :: int request"
  let ?DB = "store_without_tables one_only"
  let ?L = "legacy_store_without_table one_only"
  let ?ctx = "\<lparr>legacy_request = request_for ''DELETE'' ''contacts'' None None,
      legacy_DB = Some ?L, legacy_id = Some ''1''\<rparr>"
  note inst = missing_table_without_provisioning [of ?get ?DB ?L ?get ?ctx ?L]
  have v: "isValidTableName (tableName_of ?get)" by (simp add: contacts_valid)
  have f: "\<not> sqlite_master_first ?DB (tableName_of ?get)" by (simp add: sqlite_master_first_def)
  have g: "http_method ?get = ''GET''" by simp
  have l: "contacts ?L = None" by (simp add: legacy_store_without_table_def)
  have c: "legacy_DB ?ctx = Some ?L" "legacy_id ?ctx = Some ''1''" "''1'' \<noteq> []"
    "http_method (legacy_request ?ctx) = ''DELETE''" by simp_all
  from inst v f g have "snd (strict_onRequest ?get ?DB) = ?DB"
    and "fst (strict_onRequest ?get ?DB) =
      \<lparr>status = 404,
       body = ErrorBody (Error (''Table '' @ quoted ''contacts'' @ '' does not exist''))\<rparr>"
    by auto
  then have s: "strict_onRequest ?get ?DB =
      (\<lparr>status = 404,
        body = ErrorBody (Error (''Table '' @ quoted ''contacts'' @ '' does not exist''))\<rparr>, ?DB)"
    by (metis prod.collapse)
  from inst l g have lg: "status (fst (legacy_onRequest ?get ?L)) = 500"
    "snd (legacy_onRequest ?get ?L) = ?L" by blast+
  from inst l c have li: "status (fst (legacy_item_onRequest ?ctx)) = 400"
    "snd (legacy_item_onRequest ?ctx) = Some ?L" by blast+
  from f have f': "\<not> sqlite_master_first ?DB ''contacts''" by simp
  from contacts_valid f' s l lg li show ?thesis by simp
qed

text \<open>The specification gives 404 for every such request; the fixed-schema collection
  endpoint answers a GET with 500 when its table is missing.\<close>

theorem legacy_get_missing_table_answered_500:
  "contacts (legacy_store_without_table one_only) = None \<and>
   http_method (request_for ''GET'' ''contacts'' None (None :: int json option)) = ''GET'' \<and>
   status (fst (legacy_onRequest (request_for ''GET'' ''contacts'' None None)
       (legacy_store_without_table one_only))) = 500 \<and>
   status (fst (legacy_onRequest (request_for ''GET'' ''contacts'' None None)
       (legacy_store_without_table one_only))) \<noteq> 404"
  by (simp add: legacy_onRequest_def legacy_getContacts_def contacts_all_desc_def
      legacy_store_without_table_def)

section \<open>The keys of a table stay distinct\<close>

text \<open>
  The primary key: in a datastore that starts without tables and is changed by the
  generic endpoints only, no table ever has two rows with one key, and every key handed
  out is positive.
\<close>

lemma foldr_max_bound: "x \<in> set xs \<Longrightarrow> x \<le> foldr max xs (0::int)"
  by (induction xs) auto

lemma next_id_fresh: "r \<in> set (rows tb) \<Longrightarrow> id_x r < next_id tb"
  using foldr_max_bound [of "id_x r" "map id_x (rows tb)"] by (simp add: next_id_def)

lemma next_id_positive: "0 < next_id tb"
proof -
  have "0 \<le> foldr max xs (0::int)" for xs by (induction xs) auto
  then have "0 \<le> max (sequence tb) (foldr max (map id_x (rows tb)) 0)"
    by (simp add: le_max_iff_disj)
  then show ?thesis by (simp add: next_id_def)
qed

lemma keys_unique_with_table:
  "keys_unique DB \<Longrightarrow> distinct (map id_x (rows tb)) \<Longrightarrow> keys_unique (with_table DB t e tb)"
  by (auto simp: keys_unique_def with_table_def split: if_splits)

lemma keys_unique_added: "keys_unique DB \<Longrightarrow> keys_unique (added DB t)"
  by (auto simp: keys_unique_def added_def with_sequence_table_def sequence_table_def
      empty_table_def split: option.splits if_splits)

lemma keys_unique_ensureTable: "keys_unique DB \<Longrightarrow> keys_unique (snd (ensureTable DB t))"
  using ensureTable_outcomes [of DB t] by (auto simp: keys_unique_added)

lemma with_column_distinct:
  "keys_unique DB \<Longrightarrow> with_column DB t c = Inr (e, tb) \<Longrightarrow> distinct (map id_x (rows tb))"
  by (auto simp: keys_unique_def with_column_def named_table_def catalogued_def
      split: option.splits sum.splits content.splits)

lemma keys_unique_insert_into:
  assumes "keys_unique DB"
  shows "keys_unique (snd (insert_into DB t columns vals))"
proof -
  have "keys_unique (with_table DB t e \<lparr>rows = rows tb @ [\<lparr>id_x = next_id tb, cells = c\<rparr>],
      sequence = next_id tb\<rparr>)"
    if "with_column DB t (hd columns) = Inr (e, tb)" for e tb c
  proof -
    from with_column_distinct [OF assms that] have d: "distinct (map id_x (rows tb))" .
    have "next_id tb \<notin> id_x ` set (rows tb)" using next_id_fresh [of _ tb] by force
    with d have "distinct (map id_x (rows tb @ [\<lparr>id_x = next_id tb, cells = c\<rparr>]))" by simp
    with assms show ?thesis by (intro keys_unique_with_table) simp_all
  qed
  with assms show ?thesis
    by (auto simp: insert_into_def Let_def split: sum.splits option.splits)
qed

lemma keys_unique_update_set:
  assumes "keys_unique DB"
  shows "keys_unique (snd (update_set DB t columns vals ident))"
proof -
  have "keys_unique (with_table DB t e
      (tb\<lparr>rows := map (\<lambda>r. if P r then r\<lparr>cells := f r\<rparr> else r) (rows tb)\<rparr>))"
    if "with_column DB t (hd columns) = Inr (e, tb)"
    for e tb P and f :: "'a row \<Rightarrow> string \<Rightarrow> 'a sqlval"
  proof -
    from with_column_distinct [OF assms that] have d: "distinct (map id_x (rows tb))" .
    have "id_x \<circ> (\<lambda>r. if P r then r\<lparr>cells := f r\<rparr> else r) = id_x"
      by (simp add: fun_eq_iff)
    with d assms show ?thesis by (intro keys_unique_with_table) simp_all
  qed
  with assms show ?thesis
    by (auto simp: update_set_def split: sum.splits option.splits)
qed

lemma keys_unique_delete_where_id:
  assumes "keys_unique DB"
  shows "keys_unique (snd (delete_where_id DB t ident))"
proof -
  have "keys_unique (with_table DB t e (tb\<lparr>rows := filter P (rows tb)\<rparr>))"
    if "with_column DB t ''id_x'' = Inr (e, tb)" for e tb P
  proof -
    from with_column_distinct [OF assms that] have "distinct (map id_x (rows tb))" .
    then have "distinct (map id_x (filter P (rows tb)))" by (rule distinct_map_filter)
    with assms show ?thesis by (intro keys_unique_with_table) simp_all
  qed
  with assms show ?thesis
    by (auto simp: delete_where_id_def split: sum.splits)
qed

lemma keys_unique_createContact:
  "keys_unique DB \<Longrightarrow> keys_unique (snd (createContact request DB t))"
proof -
  assume k: "keys_unique DB"
  obtain outcome DB1 where e: "ensureTable DB t = (outcome, DB1)"
    by (cases "ensureTable DB t")
  with keys_unique_ensureTable [OF k, of t] have k1: "keys_unique DB1" by simp
  have "keys_unique (snd (case insert_into DB1 t columns vals of
        (Inl e, DB2) \<Rightarrow> (Inl (save_failed t (D1Error e)), DB2)
      | (Inr result, DB2) \<Rightarrow> (created t result columns requestData, DB2)))"
    for columns vals and requestData :: "'a json"
    using keys_unique_insert_into [OF k1, of t columns vals]
    by (cases "insert_into DB1 t columns vals") (auto split: sum.splits)
  with k k1 show ?thesis
    by (cases outcome) (simp_all add: createContact_def e split: option.splits sum.splits prod.splits)
qed

lemma getContacts_state: "snd (getContacts DB t) = snd (ensureTable DB t)"
proof -
  obtain outcome DB1 where e: "ensureTable DB t = (outcome, DB1)"
    by (cases "ensureTable DB t")
  then show ?thesis
    by (cases outcome) (auto simp: getContacts_def split: sum.splits)
qed

lemma keys_unique_onRequest: "keys_unique DB \<Longrightarrow> keys_unique (snd (onRequest request DB))"
proof -
  assume k: "keys_unique DB"
  obtain outcome DB' where c: "createContact request DB (tableName_of request) = (outcome, DB')"
    by (cases "createContact request DB (tableName_of request)")
  with keys_unique_createContact [OF k, of request "tableName_of request"]
  have "keys_unique DB'" by simp
  with k c keys_unique_ensureTable [OF k, of "tableName_of request"] show ?thesis
    by (simp add: onRequest_def Let_def getContacts_state split: sum.splits)
qed

lemma keys_unique_item_onRequest:
  assumes "keys_unique DB" and "ctx_DB ctx = Some DB"
  shows "\<exists>DB'. snd (item_onRequest ctx) = Some DB' \<and> keys_unique DB'"
proof -
  let ?t = "tableName_of (ctx_request ctx)"
  have k1: "keys_unique (snd (ensureTable DB ?t))"
    using assms(1) by (rule keys_unique_ensureTable)
  have "keys_unique (snd (handleGetSingle DB ?t ident))" for ident
    by (simp add: handleGetSingle_state k1)
  moreover have "keys_unique (snd (handleUpdate (ctx_request ctx) DB ?t ident))" for ident
    using handleUpdate_state [of "ctx_request ctx" DB ?t ident] k1
    by (auto simp: keys_unique_update_set)
  moreover have "keys_unique (snd (handleDelete DB ?t ident))" for ident
    using handleDelete_state [of DB ?t ident] k1
    by (auto simp: keys_unique_delete_where_id)
  ultimately show ?thesis
    using assms
    by (simp add: item_onRequest_def Let_def with_binding_def split: option.splits list.splits)
qed

lemma keys_unique_initially: "keys_unique (store_without_tables coercion)"
  by (simp add: keys_unique_def)

end
